theory Spec2Isabelle
  imports Complex_Main "HOL-Library.Log_Nat"
begin

section \<open>Data model (models/Room.js)\<close>

text \<open>
  A finite JavaScript number is modelled by the rational it denotes. A schema field of
  type Number that is absent (undefined or null) is \<open>None\<close>. The score calculator is
  given twice: first with the sums and products of the rationals, then (section
  \<open>The score in double precision\<close>) with every sum and product rounded to the nearest
  IEEE-754 double, as the handler computes them.

  The participant and room records are polymorphic in the type of the two provider
  snapshots. A room read back from the store has snapshots typed by the schema
  (\<open>leetcode_snapshot\<close>, \<open>github_snapshot\<close>); inside the handlers that refresh
  statistics a snapshot is whatever JavaScript value was assigned last.
\<close>

record leetcode_snapshot =
  total_lc :: "rat option"
  easy :: "rat option"
  medium :: "rat option"
  hard :: "rat option"

record github_snapshot =
  totalCommits :: "rat option"
  weeklyCommits :: "rat option"
  monthlyCommits :: "rat option"

record ('l, 'g) pstats =
  leetcode :: 'l
  github :: 'g

record profiles =
  leetcode_user :: string
  github_user :: string

record ('l, 'g) participant =
  auth0Id :: string
  name :: string
  picture :: string
  role :: string
  isActive :: "bool option"
  profiles :: profiles
  stats :: "('l, 'g) pstats option"
  statsLastUpdated :: nat

record lb_settings =
  weightLeetCode :: rat
  weightGitHub :: rat

record ('l, 'g) room =
  roomId :: string
  creatorId :: string
  roomActive :: bool
  participants :: "('l, 'g) participant list"
  leaderboard_settings :: lb_settings
  lastActivity :: nat

type_synonym stored_stats = "(leetcode_snapshot option, github_snapshot option) pstats"
type_synonym stored_participant = "(leetcode_snapshot option, github_snapshot option) participant"
type_synonym stored_room = "(leetcode_snapshot option, github_snapshot option) room"

datatype http_error = BadRequest400 | Forbidden403 | NotFound404 | ServerError500

section \<open>Score calculator and leaderboard (routes/rooms.js, GET /:roomId/leaderboard)\<close>

text \<open>\<open>x || 0\<close> on a schema number: an absent value and zero both give zero.\<close>

definition num_or0 :: "rat option \<Rightarrow> rat" where
  "num_or0 v = (case v of None \<Rightarrow> 0 | Some x \<Rightarrow> if x \<noteq> 0 then x else 0)"

text \<open>\<open>Math.round\<close>: the nearest integer, a half rounding up.\<close>

definition js_round :: "rat \<Rightarrow> int" where
  "js_round x = \<lfloor>x + 1 / 2\<rfloor>"

text \<open>
  The module-level \<open>calculateLeetCodeScore\<close> of the LeetCode service, the function the
  leaderboard route imports: it reads \<open>easy\<close>, \<open>medium\<close>, \<open>hard\<close> and weighs them
  1, 2, 3.
\<close>

definition calculateLeetCodeScore :: "leetcode_snapshot option \<Rightarrow> rat" where
  "calculateLeetCodeScore leetcodeStats =
     (case leetcodeStats of
        None \<Rightarrow> 0
      | Some s \<Rightarrow> num_or0 (easy s) * 1 + num_or0 (medium s) * 2 + num_or0 (hard s) * 3)"

text \<open>
  The GitHub score of the leaderboard route, hotfix included: a commit count of exactly
  1030 is replaced by 565 before the score is formed.
\<close>

definition githubScore :: "github_snapshot \<Rightarrow> rat" where
  "githubScore g =
     (let githubCommits = num_or0 (totalCommits g);
          weekly = num_or0 (weeklyCommits g);
          monthly = num_or0 (monthlyCommits g);
          githubCommits = (if githubCommits = 1030 then 565 else githubCommits)
      in githubCommits + weekly * 2 + monthly * (1 / 2))"

text \<open>The unrounded composite score accumulated in \<open>totalScore\<close>.\<close>

definition composite_score :: "lb_settings \<Rightarrow> stored_stats \<Rightarrow> rat" where
  "composite_score S st =
     (let totalScore = 0;
          totalScore =
            (if leetcode st \<noteq> None \<and> weightLeetCode S > 0
             then totalScore + calculateLeetCodeScore (leetcode st) * weightLeetCode S
             else totalScore);
          totalScore =
            (case github st of
               Some g \<Rightarrow>
                 if weightGitHub S > 0 then totalScore + githubScore g * weightGitHub S
                 else totalScore
             | None \<Rightarrow> totalScore)
      in totalScore)"

text \<open>The statistics returned for display: a copy with the same hotfix applied.\<close>

definition displayStats :: "stored_stats \<Rightarrow> stored_stats" where
  "displayStats st =
     (case github st of
        Some g \<Rightarrow>
          if totalCommits g = Some 1030 then st\<lparr>github := Some (g\<lparr>totalCommits := Some 565\<rparr>)\<rparr>
          else st
      | None \<Rightarrow> st)"

record entry =
  e_auth0Id :: string
  e_name :: string
  e_picture :: string
  e_role :: string
  e_profiles :: profiles
  e_stats :: stored_stats
  totalScore :: int
  lastUpdated :: nat

record ranked_entry = entry +
  rank :: nat

definition leaderboard_entry :: "lb_settings \<Rightarrow> stored_participant \<Rightarrow> stored_stats \<Rightarrow> entry" where
  "leaderboard_entry S p st =
     \<lparr>e_auth0Id = auth0Id p, e_name = name p, e_picture = picture p, e_role = role p,
      e_profiles = profiles p, e_stats = displayStats st,
      totalScore = js_round (composite_score S st), lastUpdated = statsLastUpdated p\<rparr>"

text \<open>
  \<open>Array.prototype.sort\<close> with a comparator: a stable sort, here by insertion. An element
  is placed before the first element it does not compare greater than.
\<close>

fun insert_by :: "('a \<Rightarrow> 'a \<Rightarrow> int) \<Rightarrow> 'a \<Rightarrow> 'a list \<Rightarrow> 'a list" where
  "insert_by cmp x [] = [x]"
| "insert_by cmp x (y # ys) = (if cmp x y \<le> 0 then x # y # ys else y # insert_by cmp x ys)"

definition js_sort :: "('a \<Rightarrow> 'a \<Rightarrow> int) \<Rightarrow> 'a list \<Rightarrow> 'a list" where
  "js_sort cmp xs = foldr (insert_by cmp) xs []"

definition by_score_desc :: "entry \<Rightarrow> entry \<Rightarrow> int" where
  "by_score_desc a b = totalScore b - totalScore a"

definition with_rank :: "nat \<times> entry \<Rightarrow> ranked_entry" where
  "with_rank ie = entry.extend (snd ie) (ranked_entry.fields (fst ie + 1))"

text \<open>
  The handler. A room that is missing or inactive answers 404. Reading a snapshot of a
  participant whose \<open>stats\<close> object is missing throws inside the handler's \<open>try\<close>, and
  the answer is 500.
\<close>

definition unranked_entries :: "stored_room \<Rightarrow> entry option list" where
  "unranked_entries r =
     map (\<lambda>p. map_option (leaderboard_entry (leaderboard_settings r) p) (stats p))
       (filter (\<lambda>p. isActive p \<noteq> Some False) (participants r))"

definition get_leaderboard :: "stored_room option \<Rightarrow> http_error + (ranked_entry list \<times> lb_settings)" where
  "get_leaderboard found =
     (case found of
        None \<Rightarrow> Inl NotFound404
      | Some r \<Rightarrow>
          if \<not> roomActive r then Inl NotFound404
          else (case those (unranked_entries r) of
                  None \<Rightarrow> Inl ServerError500
                | Some es \<Rightarrow>
                    Inr (map with_rank (enumerate 0 (js_sort by_score_desc es)),
                         leaderboard_settings r)))"

text \<open>
  The problem-solving score as the specification words it, for comparison with the
  function the leaderboard calls.
\<close>

definition spec_problemScore :: "leetcode_snapshot \<Rightarrow> rat" where
  "spec_problemScore s = num_or0 (easy s) * 1 + num_or0 (medium s) * 3 + num_or0 (hard s) * 5"

text \<open>The commit score as the specification words it, for comparison.\<close>

definition spec_commitScore :: "github_snapshot \<Rightarrow> rat" where
  "spec_commitScore g =
     num_or0 (totalCommits g) + num_or0 (weeklyCommits g) * 2 + num_or0 (monthlyCommits g) * (1 / 2)"

section \<open>The score in double precision\<close>

text \<open>
  The handlers compute in IEEE-754 binary64. \<open>binade x\<close> is the exponent \<open>k\<close> with
  \<open>2^k \<le> |x| < 2^(k+1)\<close>; \<open>fl x\<close> is the double nearest to \<open>x\<close>: \<open>x\<close> is rounded to a
  multiple of \<open>2^(k-52)\<close> (a significand of 53 bits), and of \<open>2^(-1074)\<close> in the subnormal
  range, a tie going to the even significand. The result of a multiplication or an
  addition of two doubles is \<open>fl\<close> of the exact result. Overflow to \<open>Infinity\<close> is not
  represented: the statements about \<open>fl\<close> bound their inputs so that no operation
  overflows.
\<close>

definition binade :: "rat \<Rightarrow> int" where
  "binade x =
     (let n = fst (quotient_of \<bar>x\<bar>);
          d = snd (quotient_of \<bar>x\<bar>);
          k = bitlen n - bitlen d
      in if 2 powi k \<le> \<bar>x\<bar> then k else k - 1)"

definition round_half_even :: "rat \<Rightarrow> int" where
  "round_half_even y =
     (let f = \<lfloor>y\<rfloor>; r = y - of_int f
      in if r < 1 / 2 then f else if 1 / 2 < r then f + 1 else if even f then f else f + 1)"

definition fl :: "rat \<Rightarrow> rat" where
  "fl x =
     (if x = 0 then 0
      else (let e = max (binade x - 52) (- 1074)
            in sgn x * of_int (round_half_even (\<bar>x\<bar> / 2 powi e)) * 2 powi e))"

text \<open>
  The score calculator and the leaderboard handler once more, with the rounding \<open>rd\<close> of
  the number system applied to the result of every multiplication and addition, in the
  order in which the source evaluates them. With \<open>fl\<close> for \<open>rd\<close> this is the handler's
  arithmetic; with the identity it is the exact arithmetic of the definitions above.
\<close>

definition calculateLeetCodeScore_in :: "(rat \<Rightarrow> rat) \<Rightarrow> leetcode_snapshot option \<Rightarrow> rat" where
  "calculateLeetCodeScore_in rd leetcodeStats =
     (case leetcodeStats of
        None \<Rightarrow> 0
      | Some s \<Rightarrow>
          rd (rd (rd (num_or0 (easy s) * 1) + rd (num_or0 (medium s) * 2))
              + rd (num_or0 (hard s) * 3)))"

definition githubScore_in :: "(rat \<Rightarrow> rat) \<Rightarrow> github_snapshot \<Rightarrow> rat" where
  "githubScore_in rd g =
     (let githubCommits = num_or0 (totalCommits g);
          weekly = num_or0 (weeklyCommits g);
          monthly = num_or0 (monthlyCommits g);
          githubCommits = (if githubCommits = 1030 then 565 else githubCommits)
      in rd (rd (githubCommits + rd (weekly * 2)) + rd (monthly * (1 / 2))))"

definition composite_score_in :: "(rat \<Rightarrow> rat) \<Rightarrow> lb_settings \<Rightarrow> stored_stats \<Rightarrow> rat" where
  "composite_score_in rd S st =
     (let totalScore = 0;
          totalScore =
            (if leetcode st \<noteq> None \<and> weightLeetCode S > 0
             then rd (totalScore
                      + rd (calculateLeetCodeScore_in rd (leetcode st) * weightLeetCode S))
             else totalScore);
          totalScore =
            (case github st of
               Some g \<Rightarrow>
                 if weightGitHub S > 0
                 then rd (totalScore + rd (githubScore_in rd g * weightGitHub S))
                 else totalScore
             | None \<Rightarrow> totalScore)
      in totalScore)"

definition leaderboard_entry_in ::
  "(rat \<Rightarrow> rat) \<Rightarrow> lb_settings \<Rightarrow> stored_participant \<Rightarrow> stored_stats \<Rightarrow> entry" where
  "leaderboard_entry_in rd S p st =
     \<lparr>e_auth0Id = auth0Id p, e_name = name p, e_picture = picture p, e_role = role p,
      e_profiles = profiles p, e_stats = displayStats st,
      totalScore = js_round (composite_score_in rd S st), lastUpdated = statsLastUpdated p\<rparr>"

definition unranked_entries_in :: "(rat \<Rightarrow> rat) \<Rightarrow> stored_room \<Rightarrow> entry option list" where
  "unranked_entries_in rd r =
     map (\<lambda>p. map_option (leaderboard_entry_in rd (leaderboard_settings r) p) (stats p))
       (filter (\<lambda>p. isActive p \<noteq> Some False) (participants r))"

definition get_leaderboard_in ::
  "(rat \<Rightarrow> rat) \<Rightarrow> stored_room option \<Rightarrow> http_error + (ranked_entry list \<times> lb_settings)" where
  "get_leaderboard_in rd found =
     (case found of
        None \<Rightarrow> Inl NotFound404
      | Some r \<Rightarrow>
          if \<not> roomActive r then Inl NotFound404
          else (case those (unranked_entries_in rd r) of
                  None \<Rightarrow> Inl ServerError500
                | Some es \<Rightarrow>
                    Inr (map with_rank (enumerate 0 (js_sort by_score_desc es)),
                         leaderboard_settings r)))"

text \<open>
  The stored counts of a participant are small enough for no operation of the score
  calculator to overflow.
\<close>

definition counts_in_range :: "stored_stats \<Rightarrow> bool" where
  "counts_in_range st =
     list_all (\<lambda>c. \<bar>num_or0 c\<bar> \<le> 2 ^ 1000)
       ((case leetcode st of None \<Rightarrow> [] | Some s \<Rightarrow> [easy s, medium s, hard s])
        @ (case github st of
             None \<Rightarrow> []
           | Some g \<Rightarrow> [totalCommits g, weeklyCommits g, monthlyCommits g]))"

text \<open>Example rooms, used to evaluate the leaderboard on concrete data.\<close>

definition mk_participant :: "string \<Rightarrow> bool option \<Rightarrow> rat \<Rightarrow> stored_participant" where
  "mk_participant uid act e =
     \<lparr>auth0Id = uid, name = uid, picture = '''', role = ''participant'', isActive = act,
      profiles = \<lparr>leetcode_user = uid, github_user = ''''\<rparr>,
      stats = Some \<lparr>leetcode = Some \<lparr>total_lc = Some e, easy = Some e, medium = Some 0,
                                       hard = Some 0\<rparr>,
                    github = None\<rparr>,
      statsLastUpdated = 0\<rparr>"

definition example_room :: stored_room where
  "example_room =
     \<lparr>roomId = ''r1'', creatorId = ''a'', roomActive = True,
      participants = [mk_participant ''a'' (Some True) 50, mk_participant ''b'' None 80,
                      mk_participant ''x'' (Some False) 99,
                      mk_participant ''c'' (Some True) 80, mk_participant ''d'' (Some True) 10],
      leaderboard_settings = \<lparr>weightLeetCode = 1, weightGitHub = 0\<rparr>,
      lastActivity = 0\<rparr>"

definition ann_room :: "rat \<Rightarrow> rat \<Rightarrow> stored_room" where
  "ann_room wl wg =
     \<lparr>roomId = ''r2'', creatorId = ''u1'', roomActive = True,
      participants =
        [\<lparr>auth0Id = ''u1'', name = ''Ann'', picture = '''', role = ''creator'',
          isActive = Some True,
          profiles = \<lparr>leetcode_user = ''ann'', github_user = ''ann''\<rparr>,
          stats = Some \<lparr>leetcode = Some \<lparr>total_lc = Some 17, easy = Some 10,
                                           medium = Some 5, hard = Some 2\<rparr>,
                        github = Some \<lparr>totalCommits = Some 100, weeklyCommits = Some 10,
                                        monthlyCommits = Some 40\<rparr>\<rparr>,
          statsLastUpdated = 0\<rparr>],
      leaderboard_settings = \<lparr>weightLeetCode = wl, weightGitHub = wg\<rparr>,
      lastActivity = 0\<rparr>"

text \<open>
  The doubles nearest to 0.7 and 0.3, and a room with these weights whose two
  participants have solved 45 and 5 easy problems.
\<close>

definition double_07 :: rat where
  "double_07 = 3152519739159347 / 4503599627370496"

definition double_03 :: rat where
  "double_03 = 5404319552844595 / 18014398509481984"

definition dot7_room :: stored_room where
  "dot7_room =
     \<lparr>roomId = ''r3'', creatorId = ''a'', roomActive = True,
      participants = [mk_participant ''a'' (Some True) 45, mk_participant ''b'' (Some True) 5],
      leaderboard_settings = \<lparr>weightLeetCode = double_07, weightGitHub = double_03\<rparr>,
      lastActivity = 0\<rparr>"

section \<open>JavaScript values\<close>

text \<open>
  Request bodies, provider responses and the objects the handlers build are dynamically
  typed. \<open>JObj\<close> lists the own properties of an object in insertion order; a \<open>Date\<close> is
  represented by its time value.
\<close>

datatype jsval =
    JUndefined
  | JNull
  | JBool bool
  | JNaN
  | JNum rat
  | JStr string
  | JArr "jsval list"
  | JObj "(string \<times> jsval) list"

fun truthy :: "jsval \<Rightarrow> bool" where
  "truthy JUndefined = False"
| "truthy JNull = False"
| "truthy (JBool b) = b"
| "truthy JNaN = False"
| "truthy (JNum n) = (n \<noteq> 0)"
| "truthy (JStr s) = (s \<noteq> [])"
| "truthy (JArr xs) = True"
| "truthy (JObj kvs) = True"

text \<open>\<open>a || b\<close>\<close>

definition js_or :: "jsval \<Rightarrow> jsval \<Rightarrow> jsval" where
  "js_or a b = (if truthy a then a else b)"

text \<open>
  \<open>v.k\<close> for a data property \<open>k\<close>: the value stored in an object, \<open>undefined\<close> when the
  object has no such property or \<open>v\<close> is a primitive or an array (none of the property
  names read by this program is inherited from a prototype). Reading a property of
  \<open>null\<close> or \<open>undefined\<close> throws; the callers that can meet these values test for them
  first.
\<close>

fun js_get :: "jsval \<Rightarrow> string \<Rightarrow> jsval" where
  "js_get (JObj kvs) k = (case map_of kvs k of None \<Rightarrow> JUndefined | Some v \<Rightarrow> v)"
| "js_get v k = JUndefined"

text \<open>\<open>v?.k\<close>\<close>

definition js_opt_get :: "jsval \<Rightarrow> string \<Rightarrow> jsval" where
  "js_opt_get v k = (if v = JUndefined \<or> v = JNull then JUndefined else js_get v k)"

fun join :: "string \<Rightarrow> string list \<Rightarrow> string" where
  "join sep [] = []"
| "join sep [x] = x"
| "join sep (x # y # ys) = x @ sep @ join sep (y # ys)"

text \<open>
  \<open>String(v)\<close>, as \<open>new Error(v)\<close> applies it to its argument; \<open>None\<close> when the
  conversion throws a \<open>TypeError\<close>. An object without an own property \<open>toString\<close> is
  converted by \<open>Object.prototype.toString\<close>. An own property \<open>toString\<close> of a parsed
  JSON value is not callable; the conversion then turns to \<open>valueOf\<close>, which is not
  callable either or returns the object itself, and throws. An array is converted by
  \<open>Array.prototype.join\<close>, which converts its elements in turn. The conversion of a
  number to text is a parameter.
\<close>

fun to_string :: "(rat \<Rightarrow> string) \<Rightarrow> jsval \<Rightarrow> string option" where
  "to_string num JUndefined = Some ''undefined''"
| "to_string num JNull = Some ''null''"
| "to_string num (JBool b) = Some (if b then ''true'' else ''false'')"
| "to_string num JNaN = Some ''NaN''"
| "to_string num (JNum n) = Some (num n)"
| "to_string num (JStr s) = Some s"
| "to_string num (JArr xs) =
     map_option (join '','')
       (those (map (\<lambda>x. if x = JUndefined \<or> x = JNull then Some [] else to_string num x) xs))"
| "to_string num (JObj kvs) =
     (if ''toString'' \<in> set (map fst kvs) then None else Some ''[object Object]'')"

text \<open>
  The message of the error that \<open>throw new Error(v)\<close> hands to the enclosing \<open>catch\<close>:
  the text of \<open>v\<close>, or the message of the \<open>TypeError\<close> when the conversion throws.
\<close>

definition error_message :: "(rat \<Rightarrow> string) \<Rightarrow> jsval \<Rightarrow> string" where
  "error_message num v =
     (case to_string num v of
        Some s \<Rightarrow> s
      | None \<Rightarrow> ''Cannot convert object to primitive value'')"

text \<open>Decimal digits of a status code.\<close>

fun show_nat :: "nat \<Rightarrow> string" where
  "show_nat n =
     (if n < 10 then [''0123456789'' ! n]
      else show_nat (n div 10) @ [''0123456789'' ! (n mod 10)])"

section \<open>The outside world\<close>

text \<open>
  What a \<open>fetch\<close> of a problem-solving mirror ends in: the promise rejects (with the
  error's message), or a response arrives with a status and a body whose \<open>json()\<close> either
  throws (with a message) or yields a value.
\<close>

datatype http_result =
    NetworkFailure string
  | HttpResponse nat "string + jsval"

text \<open>A JavaScript number that is a result of arithmetic: \<open>None\<close> is \<open>NaN\<close>.\<close>

definition js_number :: "rat option \<Rightarrow> jsval" where
  "js_number x = (case x of None \<Rightarrow> JNaN | Some v \<Rightarrow> JNum v)"

text \<open>
  What \<open>githubAPI.getUserCommitStats\<close> computes inside its \<open>try\<close> block from the profile
  and the event feed: the estimated total (a \<open>Math.max\<close>), the commits of the last week
  and month, the profile's \<open>public_repos\<close> as received, the account age in months (a
  \<open>Math.floor\<close>) and the recent commits. The network, the clock and the arithmetic of
  the estimate are not modelled.
\<close>

record estimate =
  est_total :: "rat option"
  est_thisWeek :: nat
  est_thisMonth :: nat
  est_publicRepos :: jsval
  est_accountAge :: "rat option"
  est_recentActivity :: nat

text \<open>
  The environment of one run. \<open>gh_exists\<close> is the answer of the profile probe
  (\<open>response.ok\<close>, false when the request fails). \<open>gh_accurate\<close> is what the \<open>try\<close> block
  of \<open>getContributionStatsGraphQL\<close> ends in: the message of the exception, or the
  \<open>total_count\<close> of the search answer, the commits of the last week and month and the
  \<open>public_repos\<close> of the profile. \<open>gh_estimate\<close> is \<open>None\<close> when the \<open>try\<close> block of
  \<open>getUserCommitStats\<close> throws.

  A participant is a sub-document of the room document, typed by the schema of
  models/Room.js, and an assignment to \<open>participant.stats.github\<close> or
  \<open>participant.stats.leetcode\<close> goes through the setter of the persistence library,
  which is not part of the repository: of the value assigned, the document keeps the
  fields that the schema declares, cast to their types. \<open>doc_set provider v\<close> is what
  the snapshot of the provider holds after \<open>v\<close> was assigned to it. When \<open>v\<close> is not a
  value that the schema can take, the document is invalid and \<open>room.save()\<close> rejects
  (the \<open>save\<close> of the handlers below answers false); what the snapshot holds is then not
  observed. The fixed records that the handlers assign (the initial statistics and the
  fallbacks) hold numbers in fields of the schema; the document holds them as assigned.
\<close>

record env =
  fetch :: "string \<Rightarrow> http_result"
  numberToString :: "rat \<Rightarrow> string"
  gh_exists :: "string \<Rightarrow> bool"
  gh_accurate :: "string \<Rightarrow> string + (jsval \<times> nat \<times> nat \<times> jsval)"
  gh_estimate :: "string \<Rightarrow> estimate option"
  doc_set :: "string \<Rightarrow> jsval \<Rightarrow> jsval"

section \<open>LeetCode service (services/leetcodeService.js)\<close>

definition LEETCODE_API_ENDPOINTS :: "string list" where
  "LEETCODE_API_ENDPOINTS =
     [''https://leetcode-stats-api.herokuapp.com'',
      ''https://alfa-leetcode-api.onrender.com'',
      ''https://leetcode-api-faisalshohag.vercel.app'']"

text \<open>The normalization of a mirror's response: the object literal returned on success.\<close>

definition normalize :: "jsval \<Rightarrow> jsval" where
  "normalize data = JObj
     [(''totalSolved'', js_or (js_get data ''totalSolved'') (js_or (js_get data ''solvedProblem'')
         (js_or (js_get data ''total_solved'') (JNum 0)))),
      (''totalQuestions'', js_or (js_get data ''totalQuestions'')
         (js_or (js_get data ''total_problems'') (JNum 0))),
      (''easySolved'', js_or (js_get data ''easySolved'') (js_or (js_get data ''easy'')
         (js_or (js_get data ''easy_solved'') (JNum 0)))),
      (''totalEasy'', js_or (js_get data ''totalEasy'') (js_or (js_get data ''total_easy'') (JNum 0))),
      (''mediumSolved'', js_or (js_get data ''mediumSolved'') (js_or (js_get data ''medium'')
         (js_or (js_get data ''medium_solved'') (JNum 0)))),
      (''totalMedium'', js_or (js_get data ''totalMedium'')
         (js_or (js_get data ''total_medium'') (JNum 0))),
      (''hardSolved'', js_or (js_get data ''hardSolved'') (js_or (js_get data ''hard'')
         (js_or (js_get data ''hard_solved'') (JNum 0)))),
      (''totalHard'', js_or (js_get data ''totalHard'') (js_or (js_get data ''total_hard'') (JNum 0))),
      (''acceptanceRate'', js_or (js_get data ''acceptanceRate'')
         (js_or (js_get data ''acceptance_rate'') (JNum 0))),
      (''ranking'', js_or (js_get data ''ranking'') (js_or (js_get data ''rank'') JNull)),
      (''contributionPoints'', js_or (js_get data ''contributionPoints'')
         (js_or (js_get data ''contribution_points'') (JNum 0))),
      (''reputation'', js_or (js_get data ''reputation'') (JNum 0))]"

text \<open>
  One pass of the loop body of \<open>getUserStats\<close>: \<open>Inl\<close> is the message of the error the
  \<open>catch\<close> receives, \<open>Inr\<close> the record returned. A body of \<open>null\<close> makes the first
  property read throw a \<open>TypeError\<close> (the message is the engine's).
\<close>

definition try_endpoint :: "env \<Rightarrow> string \<Rightarrow> string \<Rightarrow> string + jsval" where
  "try_endpoint w apiBase username =
     (case fetch w (apiBase @ ''/'' @ username) of
        NetworkFailure m \<Rightarrow> Inl m
      | HttpResponse status body \<Rightarrow>
          if \<not> (200 \<le> status \<and> status \<le> 299)
          then Inl (''API responded with status: '' @ show_nat status)
          else (case body of
                  Inl m \<Rightarrow> Inl m
                | Inr data \<Rightarrow>
                    if data = JNull \<or> data = JUndefined
                    then Inl (''Cannot read properties of ''
                              @ (if data = JNull then ''null'' else ''undefined'')
                              @ '' (reading 'status')'')
                    else if js_get data ''status'' = JStr ''error''
                            \<or> js_get data ''message'' = JStr ''failed''
                            \<or> truthy (js_get data ''errors'')
                    then Inl (error_message (numberToString w)
                                (js_or (js_get data ''message'')
                                   (js_or (js_get data ''errors'') (JStr ''User not found''))))
                    else Inr (normalize data)))"

text \<open>The loop over the mirrors, with the list of errors collected so far.\<close>

fun try_endpoints :: "env \<Rightarrow> string \<Rightarrow> string list \<Rightarrow> string list \<Rightarrow> jsval" where
  "try_endpoints w username [] errors =
     JObj [(''error'', JBool True),
           (''message'', JStr (''All LeetCode APIs failed. Errors: '' @ join ''; '' errors)),
           (''totalSolved'', JNum 0),
           (''easySolved'', JNum 0),
           (''mediumSolved'', JNum 0),
           (''hardSolved'', JNum 0)]"
| "try_endpoints w username (apiBase # rest) errors =
     (case try_endpoint w apiBase username of
        Inr result \<Rightarrow> result
      | Inl message \<Rightarrow> try_endpoints w username rest (errors @ [apiBase @ '': '' @ message]))"

definition getUserStats :: "env \<Rightarrow> string \<Rightarrow> jsval" where
  "getUserStats w username = try_endpoints w username LEETCODE_API_ENDPOINTS []"

text \<open>
  What it means for the answer of a mirror to be a failure, and the reason of the failure:
  the request was rejected (the reason is the message of the rejection); the status is
  outside 200..299 (the reason names the status); the body is not JSON (the reason is the
  parser's message); the body is \<open>null\<close> (the reason is the message of the engine's
  \<open>TypeError\<close>); or the body has the shape of an error, that is, its \<open>status\<close> is
  \<open>error\<close>, its \<open>message\<close> is \<open>failed\<close> or its \<open>errors\<close> is truthy, and the reason is
  the text of the first truthy one of its \<open>message\<close>, its \<open>errors\<close> and \<open>User not found\<close>.
  Stated on the answer alone, for comparison with the loop body.
\<close>

fun fails_with :: "(rat \<Rightarrow> string) \<Rightarrow> http_result \<Rightarrow> string \<Rightarrow> bool" where
  "fails_with num (NetworkFailure m) reason = (reason = m)"
| "fails_with num (HttpResponse status (Inl m)) reason =
     (if 200 \<le> status \<and> status \<le> 299 then reason = m
      else reason = ''API responded with status: '' @ show_nat status)"
| "fails_with num (HttpResponse status (Inr data)) reason =
     (if \<not> (200 \<le> status \<and> status \<le> 299)
      then reason = ''API responded with status: '' @ show_nat status
      else if data = JNull then reason = ''Cannot read properties of null (reading 'status')''
      else if data = JUndefined
      then reason = ''Cannot read properties of undefined (reading 'status')''
      else (js_get data ''status'' = JStr ''error''
            \<or> js_get data ''message'' = JStr ''failed''
            \<or> truthy (js_get data ''errors''))
           \<and> reason = error_message num
                        (if truthy (js_get data ''message'') then js_get data ''message''
                         else if truthy (js_get data ''errors'') then js_get data ''errors''
                         else JStr ''User not found''))"

text \<open>
  A record in canonical form: the twelve canonical fields, each holding a truthy value or
  its default (\<open>null\<close> for the ranking, 0 for the others).
\<close>

definition canonical_fields :: "string list" where
  "canonical_fields =
     [''totalSolved'', ''totalQuestions'', ''easySolved'', ''totalEasy'', ''mediumSolved'',
      ''totalMedium'', ''hardSolved'', ''totalHard'', ''acceptanceRate'', ''ranking'',
      ''contributionPoints'', ''reputation'']"

definition field_default :: "string \<Rightarrow> jsval" where
  "field_default k = (if k = ''ranking'' then JNull else JNum 0)"

fun canonical :: "jsval \<Rightarrow> bool" where
  "canonical (JObj kvs) =
     (map fst kvs = canonical_fields
      \<and> list_all (\<lambda>kv. truthy (snd kv) \<or> snd kv = field_default (fst kv)) kvs)"
| "canonical v = False"

section \<open>GitHub service (services/githubService.js)\<close>

text \<open>
  Each of the three service functions the routes call wraps its whole body in
  \<open>try\<close>/\<open>catch\<close> and returns a value from the \<open>catch\<close>, so none of them throws. The
  objects they return are built here from the environment; the property names are the
  source's.
\<close>

definition validateUsername :: "env \<Rightarrow> string \<Rightarrow> bool" where
  "validateUsername w username = gh_exists w username"

definition getContributionStatsGraphQL :: "env \<Rightarrow> string \<Rightarrow> jsval" where
  "getContributionStatsGraphQL w username =
     (case gh_accurate w username of
        Inl reason \<Rightarrow> JObj [(''supported'', JBool False), (''reason'', JStr reason)]
      | Inr (total_count, weekCommits, monthCommits, repos) \<Rightarrow>
          JObj [(''supported'', JBool True),
                (''total'', js_or total_count (JNum 0)),
                (''thisWeek'', JNum (of_nat weekCommits)),
                (''thisMonth'', JNum (of_nat monthCommits)),
                (''publicRepos'', js_or repos (JNum 0)),
                (''method'', JStr ''accurate'')])"

definition getUserCommitStats :: "env \<Rightarrow> string \<Rightarrow> jsval" where
  "getUserCommitStats w username =
     (case gh_estimate w username of
        Some e \<Rightarrow>
          JObj [(''total'', js_number (est_total e)),
                (''thisWeek'', JNum (of_nat (est_thisWeek e))),
                (''thisMonth'', JNum (of_nat (est_thisMonth e))),
                (''publicRepos'', est_publicRepos e),
                (''accountAge'', js_number (est_accountAge e)),
                (''recentActivity'', JNum (of_nat (est_recentActivity e)))]
      | None \<Rightarrow>
          JObj [(''total'', JNum 0),
                (''thisWeek'', JNum 0),
                (''thisMonth'', JNum 0),
                (''publicRepos'', JNum 0),
                (''accountAge'', JNum 0),
                (''recentActivity'', JNum 0)])"

section \<open>Refreshing statistics (routes/rooms.js, routes/users.js)\<close>

type_synonym js_stats = "(jsval, jsval) pstats"
type_synonym js_participant = "(jsval, jsval) participant"
type_synonym js_room = "(jsval, jsval) room"

text \<open>The calls a handler makes to the provider services, in order.\<close>

datatype api_call =
    ValidateUsername string
  | ContributionStats string
  | CommitStats string
  | LeetCodeStats string

fun github_call :: "api_call \<Rightarrow> bool" where
  "github_call (LeetCodeStats u) = False"
| "github_call c = True"

text \<open>The profile usernames of a request; \<open>None\<close> is a property that is \<open>undefined\<close>.\<close>

record req_profiles =
  rp_leetcode :: "string option"
  rp_github :: "string option"

text \<open>\<open>{ ...participant.profiles, ...profiles }\<close>\<close>

definition merge_profiles :: "profiles \<Rightarrow> req_profiles \<Rightarrow> profiles" where
  "merge_profiles old new =
     \<lparr>leetcode_user = (case rp_leetcode new of None \<Rightarrow> leetcode_user old | Some u \<Rightarrow> u),
      github_user = (case rp_github new of None \<Rightarrow> github_user old | Some u \<Rightarrow> u)\<rparr>"

text \<open>The statistics given to a participant that has none.\<close>

definition initial_stats :: js_stats where
  "initial_stats =
     \<lparr>leetcode = JObj [(''easy'', JNum 0), (''medium'', JNum 0), (''hard'', JNum 0),
                       (''total'', JNum 0)],
      github = JObj [(''totalCommits'', JNum 0), (''weeklyCommits'', JNum 0),
                     (''monthlyCommits'', JNum 0)]\<rparr>"

definition stats_or_initial :: "js_participant \<Rightarrow> js_stats" where
  "stats_or_initial p = (case stats p of None \<Rightarrow> initial_stats | Some s \<Rightarrow> s)"

text \<open>\<open>room.isParticipant\<close> and \<open>room.isCreator\<close> (models/Room.js)\<close>

definition isParticipant :: "('l, 'g) room \<Rightarrow> string \<Rightarrow> bool" where
  "isParticipant r uid = list_ex (\<lambda>p. auth0Id p = uid \<and> isActive p = Some True) (participants r)"

definition isCreator :: "('l, 'g) room \<Rightarrow> string \<Rightarrow> bool" where
  "isCreator r uid = (creatorId r = uid)"

text \<open>
  \<open>participants.find(...)\<close> returns the first match, and the handlers mutate that object
  in place: the first match is replaced.
\<close>

fun update_first :: "('a \<Rightarrow> bool) \<Rightarrow> ('a \<Rightarrow> 'a) \<Rightarrow> 'a list \<Rightarrow> 'a list" where
  "update_first P f [] = []"
| "update_first P f (x # xs) = (if P x then f x # xs else x # update_first P f xs)"

text \<open>The local state of a refresh: the statistics object, \<open>updates\<close>, \<open>errors\<close>, the calls.\<close>

record progress =
  cur_stats :: js_stats
  updates :: "(string \<times> jsval) list"
  errors :: "string list"
  calls :: "api_call list"

subsection \<open>POST /:roomId/update-stats\<close>

text \<open>
  The GitHub part. The \<open>catch\<close> around the backend fetch (fallback 75, 8, 30) is not
  reachable, since none of the three service calls throws. \<open>updates.github\<close> is read
  back from the participant after the assignment.
\<close>

definition update_github :: "env \<Rightarrow> nat \<Rightarrow> jsval \<Rightarrow> string \<Rightarrow> progress \<Rightarrow> progress" where
  "update_github w now frontendStats username s =
     (if username = [] then s
      else if truthy (js_opt_get frontendStats ''github'') then
        (let held = doc_set w ''github'' (js_opt_get frontendStats ''github'')
         in s\<lparr>cur_stats := (cur_stats s)\<lparr>github := held\<rparr>,
              updates := updates s @ [(''github'', held)]\<rparr>)
      else if \<not> validateUsername w username then
        (let fallback = JObj [(''totalCommits'', JNum 50), (''weeklyCommits'', JNum 5),
                              (''monthlyCommits'', JNum 20)]
         in s\<lparr>cur_stats := (cur_stats s)\<lparr>github := fallback\<rparr>,
              updates := updates s @ [(''github'', fallback)],
              errors := errors s @ [''GitHub username '' @ [CHR 0x22] @ username @ [CHR 0x22]
                                     @ '' not found - using estimated stats''],
              calls := calls s @ [ValidateUsername username]\<rparr>)
      else
        (let graphqlStats = getContributionStatsGraphQL w username
         in if truthy (js_get graphqlStats ''supported'') then
              (let newGithubStats =
                     JObj [(''totalCommits'', js_get graphqlStats ''total''),
                           (''weeklyCommits'', js_get graphqlStats ''thisWeek''),
                           (''monthlyCommits'', js_get graphqlStats ''thisMonth''),
                           (''lastUpdated'', JNum (of_nat now))];
                   held = doc_set w ''github'' newGithubStats
               in s\<lparr>cur_stats := (cur_stats s)\<lparr>github := held\<rparr>,
                    updates := updates s @ [(''github'', held)],
                    calls := calls s @ [ValidateUsername username, ContributionStats username]\<rparr>)
            else
              (let githubStats = getUserCommitStats w username;
                   estimated =
                     JObj [(''totalCommits'', js_or (js_get githubStats ''total'') (JNum 100)),
                           (''weeklyCommits'', js_or (js_get githubStats ''thisWeek'') (JNum 10)),
                           (''monthlyCommits'', js_or (js_get githubStats ''thisMonth'') (JNum 40))];
                   held = doc_set w ''github'' estimated
               in s\<lparr>cur_stats := (cur_stats s)\<lparr>github := held\<rparr>,
                    updates := updates s @ [(''github'', held)],
                    calls := calls s @ [ValidateUsername username, ContributionStats username,
                                        CommitStats username]\<rparr>)))"

text \<open>
  The LeetCode part. \<open>getUserStats\<close> does not throw, so the \<open>catch\<close> (fallback 8, 4, 1)
  is not reachable.
\<close>

definition update_leetcode :: "env \<Rightarrow> jsval \<Rightarrow> string \<Rightarrow> progress \<Rightarrow> progress" where
  "update_leetcode w frontendStats username s =
     (if username = [] then s
      else if truthy (js_opt_get frontendStats ''leetcode'') then
        (let held = doc_set w ''leetcode'' (js_opt_get frontendStats ''leetcode'')
         in s\<lparr>cur_stats := (cur_stats s)\<lparr>leetcode := held\<rparr>,
              updates := updates s @ [(''leetcode'', held)]\<rparr>)
      else
        (let leetcodeStats = getUserStats w username
         in if truthy (js_get leetcodeStats ''error'') then
              (let fallback = JObj [(''easy'', JNum 10), (''medium'', JNum 5), (''hard'', JNum 2),
                                    (''total'', JNum 17)]
               in s\<lparr>cur_stats := (cur_stats s)\<lparr>leetcode := fallback\<rparr>,
                    updates := updates s @ [(''leetcode'', fallback)],
                    errors := errors s @ [''LeetCode API error - using estimated stats''],
                    calls := calls s @ [LeetCodeStats username]\<rparr>)
            else
              (let fetched =
                     JObj [(''easy'', js_or (js_get leetcodeStats ''easySolved'') (JNum 0)),
                           (''medium'', js_or (js_get leetcodeStats ''mediumSolved'') (JNum 0)),
                           (''hard'', js_or (js_get leetcodeStats ''hardSolved'') (JNum 0)),
                           (''total'', js_or (js_get leetcodeStats ''totalSolved'') (JNum 0))];
                   held = doc_set w ''leetcode'' fetched
               in s\<lparr>cur_stats := (cur_stats s)\<lparr>leetcode := held\<rparr>,
                    updates := updates s @ [(''leetcode'', held)],
                    calls := calls s @ [LeetCodeStats username]\<rparr>)))"

text \<open>
  The request body. An \<open>auth0Id\<close> that is missing and one that is empty are both falsy
  and are both the empty string here.
\<close>

record update_request =
  rq_auth0Id :: string
  rq_profiles :: "req_profiles option"
  rq_frontendStats :: jsval

record update_reply =
  u_message :: string
  u_updates :: "(string \<times> jsval) list"
  u_errors :: "string list option"
  u_participant :: js_participant

text \<open>
  What a handler does: its answer (\<open>Inr\<close> is the body of a response with
  \<open>success: true\<close>, \<open>Inl\<close> the status of a response with \<open>success: false\<close>), the room
  document written by \<open>room.save()\<close> when it was called and succeeded, and the calls made
  to the providers.
\<close>

record 'a outcome =
  reply :: "http_error + 'a"
  saved :: "js_room option"
  calls_made :: "api_call list"

definition refuse :: "http_error \<Rightarrow> 'a outcome" where
  "refuse e = \<lparr>reply = Inl e, saved = None, calls_made = []\<rparr>"

text \<open>The participant's profiles after \<open>if (profiles) { ... }\<close>.\<close>

definition effective_profiles :: "update_request \<Rightarrow> js_participant \<Rightarrow> profiles" where
  "effective_profiles rq p =
     (case rq_profiles rq of None \<Rightarrow> profiles p | Some new \<Rightarrow> merge_profiles (profiles p) new)"

text \<open>The two provider parts, and the participant after them and the timestamp.\<close>

definition refreshed :: "env \<Rightarrow> nat \<Rightarrow> update_request \<Rightarrow> js_participant \<Rightarrow> progress" where
  "refreshed w now rq p =
     (let s0 = \<lparr>cur_stats = stats_or_initial p, updates = [], errors = [], calls = []\<rparr>;
          s1 = update_github w now (rq_frontendStats rq) (github_user (effective_profiles rq p)) s0
      in update_leetcode w (rq_frontendStats rq) (leetcode_user (effective_profiles rq p)) s1)"

definition update_participant :: "env \<Rightarrow> nat \<Rightarrow> update_request \<Rightarrow> js_participant \<Rightarrow> js_participant" where
  "update_participant w now rq p =
     p\<lparr>profiles := effective_profiles rq p,
       stats := Some (cur_stats (refreshed w now rq p)),
       statsLastUpdated := now\<rparr>"

definition update_stats ::
  "env \<Rightarrow> nat \<Rightarrow> (js_room \<Rightarrow> bool) \<Rightarrow> js_room option \<Rightarrow> update_request \<Rightarrow> update_reply outcome" where
  "update_stats w now save found rq =
     (if rq_auth0Id rq = [] then refuse BadRequest400
      else case found of
        None \<Rightarrow> refuse NotFound404
      | Some r \<Rightarrow>
          if \<not> roomActive r then refuse NotFound404
          else if \<not> isParticipant r (rq_auth0Id rq) then refuse Forbidden403
          else (case find (\<lambda>p. auth0Id p = rq_auth0Id rq) (participants r) of
                  None \<Rightarrow> refuse NotFound404
                | Some p \<Rightarrow>
                    (let s = refreshed w now rq p;
                         p' = update_participant w now rq p;
                         r' = r\<lparr>participants :=
                                   update_first (\<lambda>q. auth0Id q = rq_auth0Id rq) (\<lambda>q. p')
                                     (participants r),
                                 lastActivity := now\<rparr>
                     in if save r' then
                          \<lparr>reply = Inr \<lparr>u_message = ''Stats updated successfully'',
                                         u_updates = updates s,
                                         u_errors = (if length (errors s) > 0 then Some (errors s)
                                                     else None),
                                         u_participant = p'\<rparr>,
                           saved = Some r', calls_made = calls s\<rparr>
                        else \<lparr>reply = Inl ServerError500, saved = None, calls_made = calls s\<rparr>)))"

subsection \<open>POST /:roomId/refresh-leaderboard\<close>

text \<open>
  The body of the loop for one participant whose \<open>isActive\<close> flag is not false: the
  participant afterwards, the entry pushed to \<open>updates\<close> (if any), the errors pushed and
  the calls made. The GitHub snapshot is built from the properties \<open>totalCommits\<close>,
  \<open>weeklyCommits\<close> and \<open>monthlyCommits\<close> of what \<open>getUserCommitStats\<close> returned.
\<close>

definition refresh_github :: "env \<Rightarrow> string \<Rightarrow> progress \<Rightarrow> progress" where
  "refresh_github w username s =
     (if username = [] then s
      else
        (let githubStats = getUserCommitStats w username;
             snapshot =
               doc_set w ''github''
                 (JObj [(''totalCommits'', js_get githubStats ''totalCommits''),
                        (''weeklyCommits'', js_get githubStats ''weeklyCommits''),
                        (''monthlyCommits'', js_get githubStats ''monthlyCommits'')])
         in s\<lparr>cur_stats := (cur_stats s)\<lparr>github := snapshot\<rparr>,
              updates := updates s @ [(''github'', snapshot)],
              calls := calls s @ [CommitStats username]\<rparr>))"

definition refresh_leetcode :: "env \<Rightarrow> string \<Rightarrow> string \<Rightarrow> progress \<Rightarrow> progress" where
  "refresh_leetcode w pname username s =
     (if username = [] then s
      else
        (let leetcodeStats = getUserStats w username
         in if \<not> truthy (js_get leetcodeStats ''error'') then
              (let snapshot =
                     doc_set w ''leetcode''
                       (JObj [(''easy'', js_get leetcodeStats ''easySolved''),
                              (''medium'', js_get leetcodeStats ''mediumSolved''),
                              (''hard'', js_get leetcodeStats ''hardSolved''),
                              (''total'', js_get leetcodeStats ''totalSolved'')])
               in s\<lparr>cur_stats := (cur_stats s)\<lparr>leetcode := snapshot\<rparr>,
                    updates := updates s @ [(''leetcode'', snapshot)],
                    calls := calls s @ [LeetCodeStats username]\<rparr>)
            else
              s\<lparr>errors := errors s @ [''LeetCode error for '' @ pname @ '': User not found''],
                calls := calls s @ [LeetCodeStats username]\<rparr>))"

definition refresh_progress :: "env \<Rightarrow> js_participant \<Rightarrow> progress" where
  "refresh_progress w p =
     refresh_leetcode w (name p) (leetcode_user (profiles p))
       (refresh_github w (github_user (profiles p))
          \<lparr>cur_stats = stats_or_initial p, updates = [], errors = [], calls = []\<rparr>)"

definition refresh_participant :: "env \<Rightarrow> nat \<Rightarrow> js_participant \<Rightarrow> js_participant" where
  "refresh_participant w now p =
     (if isActive p = Some False then p
      else
        (let s = refresh_progress w p;
             p' = p\<lparr>stats := Some (cur_stats s)\<rparr>
         in if length (updates s) > 0 then p'\<lparr>statsLastUpdated := now\<rparr> else p'))"

record refresh_reply =
  r_message :: string
  r_updates :: "(string \<times> (string \<times> jsval) list) list"
  r_errors :: "string list option"

definition refresh_leaderboard ::
  "env \<Rightarrow> nat \<Rightarrow> (js_room \<Rightarrow> bool) \<Rightarrow> js_room option \<Rightarrow> string \<Rightarrow> refresh_reply outcome" where
  "refresh_leaderboard w now save found uid =
     (if uid = [] then refuse BadRequest400
      else case found of
        None \<Rightarrow> refuse NotFound404
      | Some r \<Rightarrow>
          if \<not> roomActive r then refuse NotFound404
          else if \<not> isCreator r uid then refuse Forbidden403
          else
            (let active = filter (\<lambda>p. isActive p \<noteq> Some False) (participants r);
                 all_updates =
                   map (\<lambda>p. (name p, updates (refresh_progress w p)))
                     (filter (\<lambda>p. length (updates (refresh_progress w p)) > 0) active);
                 all_errors = concat (map (\<lambda>p. errors (refresh_progress w p)) active);
                 all_calls = concat (map (\<lambda>p. calls (refresh_progress w p)) active);
                 r' = r\<lparr>participants := map (refresh_participant w now) (participants r),
                         lastActivity := now\<rparr>
             in if save r' then
                  \<lparr>reply = Inr \<lparr>r_message = ''Leaderboard refreshed for ''
                                    @ show_nat (length all_updates) @ '' participants'',
                                 r_updates = all_updates,
                                 r_errors = (if length all_errors > 0 then Some all_errors
                                             else None)\<rparr>,
                   saved = Some r', calls_made = all_calls\<rparr>
                else \<lparr>reply = Inl ServerError500, saved = None, calls_made = all_calls\<rparr>))"

subsection \<open>updateParticipantStatsInRooms (routes/users.js)\<close>













section \<open>Example environments and rooms\<close>

text \<open>
  The fields that the schema of models/Room.js declares for the snapshot of a provider,
  and a document setter for the examples: of an object it keeps the declared fields, with
  their values (the examples assign numbers); it takes no other value.
\<close>

definition schema_fields :: "string \<Rightarrow> string list" where
  "schema_fields provider =
     (if provider = ''github''
      then [''totalCommits'', ''weeklyCommits'', ''monthlyCommits'', ''lastUpdated'']
      else [''total'', ''easy'', ''medium'', ''hard'', ''lastUpdated''])"

definition keep_declared :: "string \<Rightarrow> jsval \<Rightarrow> jsval" where
  "keep_declared provider v =
     (case v of
        JObj kvs \<Rightarrow> JObj (filter (\<lambda>kv. fst kv \<in> set (schema_fields provider)) kvs)
      | _ \<Rightarrow> JUndefined)"

text \<open>
  A save for the examples: \<open>room.save()\<close> validates the document, and rejects a room in
  which a snapshot did not take the value assigned to it.
\<close>

definition validated_save :: "js_room \<Rightarrow> bool" where
  "validated_save r =
     list_all
       (\<lambda>p. case stats p of
               None \<Rightarrow> True
             | Some st \<Rightarrow> leetcode st \<noteq> JUndefined \<and> github st \<noteq> JUndefined)
       (participants r)"

text \<open>An environment in which every provider request fails, and one in which all succeed.\<close>

definition world_down :: env where
  "world_down =
     \<lparr>fetch = (\<lambda>url. HttpResponse 404 (Inl ''Unexpected token'')),
      numberToString = (\<lambda>n. ''0''),
      gh_exists = (\<lambda>u. False),
      gh_accurate = (\<lambda>u. Inl ''Search API failed: 403''),
      gh_estimate = (\<lambda>u. None),
      doc_set = keep_declared\<rparr>"

definition world_up :: env where
  "world_up =
     \<lparr>fetch = (\<lambda>url. HttpResponse 200
                 (Inr (JObj [(''status'', JStr ''success''), (''totalSolved'', JNum 17),
                             (''easySolved'', JNum 10), (''mediumSolved'', JNum 5),
                             (''hardSolved'', JNum 2)]))),
      numberToString = (\<lambda>n. ''0''),
      gh_exists = (\<lambda>u. True),
      gh_accurate = (\<lambda>u. Inr (JNum 565, 4, 12, JNum 30)),
      gh_estimate = (\<lambda>u. Some \<lparr>est_total = Some 240, est_thisWeek = 4, est_thisMonth = 12,
                                 est_publicRepos = JNum 30, est_accountAge = Some 24,
                                 est_recentActivity = 24\<rparr>),
      doc_set = keep_declared\<rparr>"

text \<open>
  An environment in which the three mirrors fail for the user \<open>nobody\<close>, each in its own
  way: the first request is rejected, the second is answered with status 429, the third
  with an error report.
\<close>

definition world_failing :: env where
  "world_failing =
     world_down\<lparr>fetch := (\<lambda>url.
        if url = ''https://leetcode-stats-api.herokuapp.com/nobody''
        then NetworkFailure ''fetch failed''
        else if url = ''https://alfa-leetcode-api.onrender.com/nobody''
        then HttpResponse 429 (Inl ''Unexpected token'')
        else HttpResponse 200 (Inr (JObj [(''status'', JStr ''error''),
                                          (''message'', JStr ''user does not exist'')])))\<rparr>"


text \<open>
  An environment in which the commit provider knows the account but the accurate method
  is unsupported, so that the estimate is used.
\<close>

definition world_estimate :: env where
  "world_estimate = world_up\<lparr>gh_accurate := (\<lambda>u. Inl ''Search API failed: 403'')\<rparr>"

definition js_ann :: js_participant where
  "js_ann =
     \<lparr>auth0Id = ''u1'', name = ''Ann'', picture = '''', role = ''creator'',
      isActive = Some True,
      profiles = \<lparr>leetcode_user = ''ann'', github_user = ''ann''\<rparr>,
      stats = Some \<lparr>leetcode = JObj [(''easy'', JNum 1), (''medium'', JNum 1), (''hard'', JNum 1),
                                     (''total'', JNum 3)],
                    github = JObj [(''totalCommits'', JNum 120), (''weeklyCommits'', JNum 3),
                                   (''monthlyCommits'', JNum 10)]\<rparr>,
      statsLastUpdated = 0\<rparr>"

definition js_room_of :: "string \<Rightarrow> js_room" where
  "js_room_of rid =
     \<lparr>roomId = rid, creatorId = ''u1'', roomActive = True, participants = [js_ann],
      leaderboard_settings = \<lparr>weightLeetCode = 3 / 5, weightGitHub = 2 / 5\<rparr>,
      lastActivity = 0\<rparr>"

text \<open>
  A request that carries client-supplied statistics: a commit record with a negative
  count and a field that the schema does not declare, and a problem-solving record whose
  counts do not add up.
\<close>

definition client_stats :: jsval where
  "client_stats =
     JObj [(''github'', JObj [(''totalCommits'', JNum (- 5)), (''bogus'', JStr ''x'')]),
           (''leetcode'', JObj [(''total'', JNum 1000000), (''easy'', JNum 1),
                                (''medium'', JNum 2), (''hard'', JNum 3)])]"

definition client_request :: update_request where
  "client_request = \<lparr>rq_auth0Id = ''u1'', rq_profiles = None, rq_frontendStats = client_stats\<rparr>"

text \<open>A request that carries a string in place of the problem-solving record.\<close>

definition string_request :: update_request where
  "string_request =
     \<lparr>rq_auth0Id = ''u1'', rq_profiles = None,
      rq_frontendStats = JObj [(''leetcode'', JStr ''anything'')]\<rparr>"

definition plain_request :: update_request where
  "plain_request = \<lparr>rq_auth0Id = ''u1'', rq_profiles = None, rq_frontendStats = JUndefined\<rparr>"


section \<open>Properties of the score calculator\<close>

lemma num_or0_simps [simp]: "num_or0 None = 0" "num_or0 (Some x) = x"
  by (simp_all add: num_or0_def)



section \<open>Properties of the leaderboard\<close>

lemma num_or0_eq_iff: "c \<noteq> 0 \<Longrightarrow> num_or0 v = c \<longleftrightarrow> v = Some c"
  by (cases v) auto

lemma js_round_of_int: "js_round (of_int z) = z"
  unfolding js_round_def by (rule floor_unique) simp_all

lemma js_round_numeral [simp]:
  "js_round (numeral n) = numeral n" "js_round 0 = 0" "js_round 1 = 1"
  using js_round_of_int [of "numeral n"] js_round_of_int [of 0] js_round_of_int [of 1]
  by simp_all

subsection \<open>The comparator sort is the library's stable sort on the negated score\<close>

lemma insert_by_score_desc:
  "insert_by by_score_desc x ys = insort_key (\<lambda>e. - totalScore e) x ys"
  by (induction ys) (simp_all add: by_score_desc_def)

lemma js_sort_by_score_desc:
  "js_sort by_score_desc es = sort_key (\<lambda>e. - totalScore e) es"
proof -
  have "insert_by by_score_desc = insort_key (\<lambda>e. - totalScore e)"
    by (intro ext) (rule insert_by_score_desc)
  then show ?thesis by (simp add: js_sort_def sort_key_def)
qed


lemma set_js_sort: "set (js_sort by_score_desc es) = set es"
  by (simp add: js_sort_by_score_desc)

subsection \<open>Adding the rank keeps the other fields\<close>

lemma truncate_with_rank [simp]: "entry.truncate (with_rank (i, e)) = e"
  by (simp add: with_rank_def entry.defs ranked_entry.defs)

lemma rank_with_rank [simp]: "rank (with_rank (i, e)) = i + 1"
  by (simp add: with_rank_def entry.defs ranked_entry.defs)

lemma totalScore_with_rank [simp]: "totalScore (with_rank (i, e)) = totalScore e"
  by (simp add: with_rank_def entry.defs ranked_entry.defs)

lemma e_auth0Id_with_rank [simp]: "e_auth0Id (with_rank (i, e)) = e_auth0Id e"
  by (simp add: with_rank_def entry.defs ranked_entry.defs)



lemma set_ranked:
  "e \<in> set (map with_rank (enumerate n es)) \<Longrightarrow>
     \<exists>e' \<in> set es. e_auth0Id e = e_auth0Id e' \<and> totalScore e = totalScore e'"
  by (induction es arbitrary: n) auto

subsection \<open>Collecting the entries\<close>


lemma those_Some_map:
  "those xs = Some ys \<Longrightarrow> xs = map Some ys"
  by (induction xs arbitrary: ys) (auto split: option.splits)

subsection \<open>The hotfix\<close>


lemma hotfix_neighbours:
  "githubScore \<lparr>totalCommits = Some 1029, weeklyCommits = None, monthlyCommits = None\<rparr> = 1029"
  "githubScore \<lparr>totalCommits = Some 1030, weeklyCommits = None, monthlyCommits = None\<rparr> = 565"
  "githubScore \<lparr>totalCommits = Some 1031, weeklyCommits = None, monthlyCommits = None\<rparr> = 1031"
  by (simp_all add: githubScore_def)

subsection \<open>Ranking\<close>


text \<open>
  The example of the specification: composite scores 50, 80, 80, 10 (and one participant
  who has left). The earlier 80 gets rank 1, the later 80 rank 2, the 50 rank 3 and the
  10 rank 4.
\<close>

lemma example_room_leaderboard:
  "map (\<lambda>e. (e_auth0Id e, totalScore e, rank e))
       (fst (projr (get_leaderboard (Some example_room))))
     = [(''b'', 80, 1), (''c'', 80, 2), (''a'', 50, 3), (''d'', 10, 4)]"
  by (simp add: get_leaderboard_def unranked_entries_def leaderboard_entry_def
        composite_score_def calculateLeetCodeScore_def example_room_def mk_participant_def
        js_sort_def enumerate_eq_zip with_rank_def entry.defs ranked_entry.defs
        by_score_desc_def)


section \<open>Properties of the score in double precision\<close>

subsection \<open>Rounding to the nearest double\<close>

lemma bitlen_powi:
  assumes "0 < m"
  shows "2 powi (bitlen m - 1) \<le> (of_int m :: rat)" "(of_int m :: rat) < 2 powi bitlen m"
proof -
  from assms have b: "1 \<le> bitlen m"
    by (simp add: bitlen_alt_def)
  from bitlen_bounds [OF assms]
  have "(2::int) ^ nat (bitlen m - 1) \<le> m" "m < 2 ^ nat (bitlen m)" by simp_all
  then have "(of_int ((2::int) ^ nat (bitlen m - 1)) :: rat) \<le> of_int m"
    "(of_int m :: rat) < of_int (2 ^ nat (bitlen m))"
    by (simp_all only: of_int_le_iff of_int_less_iff)
  with b show "2 powi (bitlen m - 1) \<le> (of_int m :: rat)" "(of_int m :: rat) < 2 powi bitlen m"
    by (simp_all add: power_int_def)
qed

lemma binade_bounds:
  assumes "x \<noteq> 0"
  shows "2 powi binade x \<le> \<bar>x\<bar>" "\<bar>x\<bar> < 2 powi (binade x + 1)"
proof -
  obtain n d where q: "quotient_of \<bar>x\<bar> = (n, d)" by (cases "quotient_of \<bar>x\<bar>")
  then have d: "0 < d" and a: "\<bar>x\<bar> = of_int n / of_int d"
    by (simp_all add: quotient_of_denom_pos quotient_of_div)
  from assms have "0 < \<bar>x\<bar>" by simp
  with a d have n: "0 < n" by (simp add: zero_less_divide_iff)
  define k where "k = bitlen n - bitlen d"
  note bn = bitlen_powi [OF n] and bd = bitlen_powi [OF d]
  have dpos: "(0::rat) < of_int d" using d by simp
  have "\<bar>x\<bar> < 2 powi bitlen n / 2 powi (bitlen d - 1)"
    unfolding a using bn(2) bd(1) n
    by (intro frac_less) simp_all
  also have "\<dots> = 2 powi (bitlen n - (bitlen d - 1))"
    by (simp add: power_int_diff)
  also have "bitlen n - (bitlen d - 1) = k + 1"
    by (simp add: k_def)
  finally have up: "\<bar>x\<bar> < 2 powi (k + 1)" .
  have "2 powi (bitlen n - 1) / 2 powi bitlen d < \<bar>x\<bar>"
    unfolding a using bn(1) bd(2) dpos
    by (intro frac_less2) simp_all
  also have "2 powi (bitlen n - 1) / 2 powi bitlen d = (2::rat) powi (bitlen n - 1 - bitlen d)"
    by (simp add: power_int_diff)
  also have "bitlen n - 1 - bitlen d = k - 1"
    by (simp add: k_def)
  finally have lo: "2 powi (k - 1) < \<bar>x\<bar>" .
  have b: "binade x = (if 2 powi k \<le> \<bar>x\<bar> then k else k - 1)"
    by (simp add: binade_def q k_def Let_def)
  show "2 powi binade x \<le> \<bar>x\<bar>" using lo by (simp add: b)
  show "\<bar>x\<bar> < 2 powi (binade x + 1)" using up by (simp add: b)
qed

lemma binade_unique:
  assumes "2 powi k \<le> \<bar>x\<bar>" "\<bar>x\<bar> < 2 powi (k + 1)"
  shows "binade x = k"
proof -
  have "(0::rat) < 2 powi k" by simp
  also note assms(1)
  finally have x: "x \<noteq> 0" by simp
  note b = binade_bounds [OF x]
  have "\<not> binade x < k"
  proof
    assume "binade x < k"
    then have "(2::rat) powi (binade x + 1) \<le> 2 powi k"
      by (intro power_int_increasing) simp_all
    with b(2) assms(1) show False by simp
  qed
  moreover have "\<not> k < binade x"
  proof
    assume "k < binade x"
    then have "(2::rat) powi (k + 1) \<le> 2 powi binade x"
      by (intro power_int_increasing) simp_all
    with b(1) assms(2) show False by simp
  qed
  ultimately show ?thesis by simp
qed

lemma round_half_even_of_int [simp]: "round_half_even (of_int z) = z"
  by (simp add: round_half_even_def)

lemma fl_minus: "fl (- x) = - fl x"
  by (simp add: fl_def binade_def Let_def)

lemma fl_scaled_int:
  assumes m: "0 < m" "m < 2 ^ 53" and e: "- 1074 \<le> e"
  shows "fl (of_int m * 2 powi e) = of_int m * 2 powi e"
proof -
  let ?y = "of_int m * (2::rat) powi e"
  have pos: "0 < ?y" using m(1) by simp
  have bl: "bitlen m \<le> 53"
  proof (rule ccontr)
    assume "\<not> bitlen m \<le> 53"
    then have "54 \<le> bitlen m" by simp
    then have "(2::rat) powi 53 \<le> 2 powi (bitlen m - 1)"
      by (intro power_int_increasing) simp_all
    also have "\<dots> \<le> of_int m" by (rule bitlen_powi [OF m(1)])
    finally have "(2::rat) ^ 53 \<le> of_int m" by (simp add: power_int_def)
    then have "(2::int) ^ 53 \<le> m" by (simp only: flip: of_int_le_iff [where ?'a = rat]) simp
    with m(2) show False by simp
  qed
  have b: "binade ?y = bitlen m - 1 + e"
  proof (rule binade_unique)
    show "2 powi (bitlen m - 1 + e) \<le> \<bar>?y\<bar>"
      using bitlen_powi(1) [OF m(1)] m(1) by (simp add: power_int_add abs_mult)
    show "\<bar>?y\<bar> < 2 powi (bitlen m - 1 + e + 1)"
      using bitlen_powi(2) [OF m(1)] m(1) by (simp add: power_int_add abs_mult)
  qed
  define e' where "e' = max (binade ?y - 52) (- 1074)"
  have le: "e' \<le> e" using bl e by (simp add: e'_def b)
  have p: "(2::rat) powi (e - e') = of_int (2 ^ nat (e - e'))"
    using le by (simp add: power_int_def)
  have "\<bar>?y\<bar> / 2 powi e' = of_int m * 2 powi (e - e')"
    using m(1) by (simp add: power_int_diff abs_mult)
  then have "\<bar>?y\<bar> / 2 powi e' = of_int (m * 2 ^ nat (e - e'))"
    by (simp add: p)
  then have "round_half_even (\<bar>?y\<bar> / 2 powi e') = m * 2 ^ nat (e - e')"
    by (simp only: round_half_even_of_int)
  moreover have "of_int (m * 2 ^ nat (e - e')) * (2::rat) powi e' = ?y"
  proof -
    have "of_int (m * 2 ^ nat (e - e')) * (2::rat) powi e'
            = of_int m * (2 powi (e - e') * 2 powi e')"
      by (simp add: p)
    also have "(2::rat) powi (e - e') * 2 powi e' = 2 powi e"
      by (simp add: power_int_add [symmetric])
    finally show ?thesis .
  qed
  ultimately show ?thesis
    using pos m(1) by (simp add: fl_def e'_def [symmetric] Let_def)
qed

lemma round_half_even_range: "\<lfloor>y\<rfloor> \<le> round_half_even y \<and> round_half_even y \<le> \<lfloor>y\<rfloor> + 1"
  by (simp add: round_half_even_def Let_def)

lemma fl_zero [simp]: "fl 0 = 0"
  by (simp add: fl_def)

lemma fl_idem_pos:
  assumes "0 < x"
  shows "fl (fl x) = fl x"
proof -
  define e where "e = max (binade x - 52) (- 1074)"
  define m where "m = round_half_even (x / 2 powi e)"
  have flx: "fl x = of_int m * 2 powi e"
    using assms by (simp add: fl_def e_def [symmetric] m_def [symmetric] Let_def)
  have e: "- 1074 \<le> e" "binade x + 1 - e \<le> 53" by (simp_all add: e_def)
  from assms have "x \<noteq> 0" by simp
  from binade_bounds(2) [OF this] assms have "x / 2 powi e < 2 powi (binade x + 1) / 2 powi e"
    by (simp add: divide_strict_right_mono)
  also have "\<dots> = 2 powi (binade x + 1 - e)" by (simp add: power_int_diff)
  also have "\<dots> \<le> 2 powi 53" using e(2) by (intro power_int_increasing) simp_all
  finally have "x / 2 powi e < of_int (2 ^ 53)" by (simp add: power_int_def)
  define f where "f = \<lfloor>x / 2 powi e\<rfloor>"
  with \<open>x / 2 powi e < of_int (2 ^ 53)\<close> have up: "f < 2 ^ 53" unfolding f_def by (simp only: floor_less_iff)
  have "0 \<le> x / 2 powi e" using assms by simp
  then have lo: "0 \<le> f" unfolding f_def by (simp only: zero_le_floor)
  have "f \<le> m \<and> m \<le> f + 1"
    unfolding f_def m_def by (rule round_half_even_range)
  with up lo have m: "0 \<le> m" "m \<le> 2 ^ 53" by simp_all
  consider "m = 0" | "0 < m" "m < 2 ^ 53" | "m = 2 ^ 53" using m by fastforce
  then show ?thesis
  proof cases
    case 1
    then show ?thesis by (simp add: flx)
  next
    case 2
    then show ?thesis unfolding flx using e(1) by (rule fl_scaled_int)
  next
    case 3
    have "of_int m * (2::rat) powi e = of_int (2 ^ 52) * 2 powi (e + 1)"
      by (simp add: 3 power_int_add)
    moreover have "fl (of_int (2 ^ 52) * 2 powi (e + 1)) = of_int (2 ^ 52) * 2 powi (e + 1)"
      using e(1) by (intro fl_scaled_int) simp_all
    ultimately show ?thesis by (simp only: flx)
  qed
qed

lemma fl_idem [simp]: "fl (fl x) = fl x"
proof (cases "0 < x")
  case True
  then show ?thesis by (rule fl_idem_pos)
next
  case False
  show ?thesis
  proof (cases "x = 0")
    case True
    then show ?thesis by simp
  next
    case False
    with \<open>\<not> 0 < x\<close> have "0 < - x" by simp
    from fl_idem_pos [OF this] show ?thesis by (simp add: fl_minus)
  qed
qed

lemma fl_of_int:
  assumes "\<bar>z\<bar> < 2 ^ 53"
  shows "fl (of_int z) = of_int z"
proof -
  have pos: "fl (of_int k) = of_int k" if "0 < k" "k < 2 ^ 53" for k
    using fl_scaled_int [OF that, of 0] by simp
  consider "z = 0" | "0 < z" | "0 < - z" by linarith
  then show ?thesis
  proof cases
    case 1
    then show ?thesis by simp
  next
    case 2
    with assms show ?thesis by (intro pos) simp_all
  next
    case 3
    with assms have "fl (of_int (- z)) = of_int (- z)" by (intro pos) simp_all
    then show ?thesis by (simp add: fl_minus)
  qed
qed

lemma fl_numeral [simp]:
  "(numeral n :: int) < 2 ^ 53 \<Longrightarrow> fl (numeral n) = numeral n"
  using fl_of_int [of "numeral n"] by simp

text \<open>The weights of the example room are the doubles that the literals 0.7 and 0.3 denote.\<close>

lemma double_07_nearest: "fl (7 / 10) = double_07" "fl (3 / 10) = double_03"
  unfolding double_07_def double_03_def by code_simp+

text \<open>With the identity for \<open>rd\<close> the computation is the one in exact arithmetic.\<close>

lemma get_leaderboard_in_exact: "get_leaderboard_in (\<lambda>x. x) found = get_leaderboard found"
proof -
  have c: "composite_score_in (\<lambda>x. x) S st = composite_score S st" for S st
    by (simp add: composite_score_in_def composite_score_def calculateLeetCodeScore_in_def
          calculateLeetCodeScore_def githubScore_in_def githubScore_def Let_def
          split: option.splits)
  have e: "leaderboard_entry_in (\<lambda>x. x) S p = leaderboard_entry S p" for S p
    by (rule ext) (simp add: leaderboard_entry_in_def leaderboard_entry_def c)
  have "unranked_entries_in (\<lambda>x. x) r = unranked_entries r" for r
    by (simp add: unranked_entries_in_def unranked_entries_def e)
  then show ?thesis
    by (simp add: get_leaderboard_in_def get_leaderboard_def split: option.splits)
qed

text \<open>
  The hotfix in double precision: the displayed count and the count that enters the commit
  score are 565 exactly when the stored count is 1030.
\<close>

lemma hotfix_in_double_precision:
  "map_option totalCommits
       (github (e_stats (leaderboard_entry_in fl S p \<lparr>leetcode = l, github = Some g\<rparr>)))
     = Some (if totalCommits g = Some 1030 then Some 565 else totalCommits g)
   \<and> githubScore_in fl g
     = fl (fl ((if totalCommits g = Some 1030 then 565 else num_or0 (totalCommits g))
               + fl (num_or0 (weeklyCommits g) * 2))
           + fl (num_or0 (monthlyCommits g) * (1 / 2)))"
  by (auto simp add: leaderboard_entry_in_def displayStats_def githubScore_in_def Let_def
        num_or0_eq_iff split: option.splits)

subsection \<open>The composite score\<close>

text \<open>
  C1 (as the claim states it, refuted): a participant whose stored problem-solving
  snapshot is easy 10, medium 5, hard 2, in a room with weight 1 for the problem-solving
  provider and weight 0 for the commit provider, is listed with \<open>totalScore\<close> 26, while
  the claim's formula gives \<open>round (35 \<times> 1 + commitScore \<times> 0) = 35\<close>. All the numbers
  involved are small integers, so the double-precision arithmetic is exact here.
\<close>

theorem C1_weights_counterexample:
  "map totalScore (fst (projr (get_leaderboard_in fl (Some (ann_room 1 0))))) = [26]
   \<and> js_round (spec_problemScore \<lparr>total_lc = Some 17, easy = Some 10, medium = Some 5,
                                   hard = Some 2\<rparr> * 1
               + spec_commitScore \<lparr>totalCommits = Some 100, weeklyCommits = Some 10,
                                    monthlyCommits = Some 40\<rparr> * 0) = 35"
  by (simp add: get_leaderboard_in_def unranked_entries_in_def leaderboard_entry_in_def
        composite_score_in_def calculateLeetCodeScore_in_def githubScore_in_def ann_room_def
        spec_problemScore_def spec_commitScore_def
        js_sort_def enumerate_eq_zip with_rank_def entry.defs ranked_entry.defs)

text \<open>
  The value accumulated in \<open>totalScore\<close>, for weights that are not negative: a provider
  without a snapshot or with weight 0 is skipped by the handler, and contributes 0 to the
  sum.
\<close>

lemma composite_score_in_fl:
  assumes "0 \<le> weightLeetCode S" and "0 \<le> weightGitHub S"
  shows "composite_score_in fl S st
           = fl (fl ((case leetcode st of None \<Rightarrow> 0
                      | Some s \<Rightarrow> fl (fl (fl (num_or0 (easy s) * 1) + fl (num_or0 (medium s) * 2))
                                      + fl (num_or0 (hard s) * 3)))
                     * weightLeetCode S)
                 + fl ((case github st of None \<Rightarrow> 0
                        | Some g \<Rightarrow> fl (fl ((if totalCommits g = Some 1030 then 565
                                               else num_or0 (totalCommits g))
                                              + fl (num_or0 (weeklyCommits g) * 2))
                                          + fl (num_or0 (monthlyCommits g) * (1 / 2))))
                       * weightGitHub S))"
  using assms
  by (cases "weightLeetCode S = 0"; cases "weightGitHub S = 0")
     (auto simp add: composite_score_in_def githubScore_in_def calculateLeetCodeScore_in_def
        Let_def num_or0_eq_iff split: option.splits)

text \<open>
  C1 (amended): for every leaderboard the handler returns, with weights between 0 and 1
  and stored counts of magnitude at most \<open>2^1000\<close> (so that no operation overflows), each
  listed entry belongs to a participant of the room whose \<open>isActive\<close> flag is not false,
  and its \<open>totalScore\<close> is
  \<open>round (problemScore \<times> weightLeetCode + commitScore \<times> weightGitHub)\<close> in the
  double-precision arithmetic of the handler: every product and every sum is rounded to
  the nearest double (\<open>fl\<close>), and the only rounding to an integer is the final one, to the
  nearest integer with halves up. Here \<open>problemScore = easy \<times> 1 + medium \<times> 2 + hard \<times> 3\<close>
  over the stored snapshot (0 when there is none) and \<open>commitScore\<close> is the commit score
  of the route (0 when there is no snapshot; a stored total of exactly 1030 counts as
  565).
\<close>

theorem C1_composite_score:
  assumes "get_leaderboard_in fl (Some r) = Inr (lb, S)"
    and "0 \<le> weightLeetCode S" and "weightLeetCode S \<le> 1"
    and "0 \<le> weightGitHub S" and "weightGitHub S \<le> 1"
    and "list_all (\<lambda>p. case stats p of None \<Rightarrow> True | Some st \<Rightarrow> counts_in_range st)
           (participants r)"
    and "e \<in> set lb"
  shows "\<exists>p st. p \<in> set (participants r) \<and> isActive p \<noteq> Some False \<and> stats p = Some st
           \<and> e_auth0Id e = auth0Id p
           \<and> totalScore e
               = \<lfloor>fl (fl ((case leetcode st of None \<Rightarrow> 0
                             | Some s \<Rightarrow> fl (fl (fl (num_or0 (easy s) * 1)
                                                  + fl (num_or0 (medium s) * 2))
                                             + fl (num_or0 (hard s) * 3)))
                            * weightLeetCode S)
                        + fl ((case github st of None \<Rightarrow> 0
                               | Some g \<Rightarrow> fl (fl ((if totalCommits g = Some 1030 then 565
                                                      else num_or0 (totalCommits g))
                                                     + fl (num_or0 (weeklyCommits g) * 2))
                                                 + fl (num_or0 (monthlyCommits g) * (1 / 2))))
                              * weightGitHub S))
                  + 1 / 2\<rfloor>"
proof -
  from assms(1) obtain es where
    es: "those (unranked_entries_in fl r) = Some es"
    and lb: "lb = map with_rank (enumerate 0 (js_sort by_score_desc es))"
    and S: "S = leaderboard_settings r"
    by (auto simp: get_leaderboard_in_def split: if_splits option.splits)
  from assms(7) lb obtain e' where
    e': "e' \<in> set es" "e_auth0Id e = e_auth0Id e'" "totalScore e = totalScore e'"
    using set_ranked set_js_sort by blast
  from es have "unranked_entries_in fl r = map Some es" by (rule those_Some_map)
  with e'(1) have "Some e' \<in> set (unranked_entries_in fl r)" by simp
  then obtain p where p0: "p \<in> set (participants r)" "isActive p \<noteq> Some False"
    "Some e' = map_option (leaderboard_entry_in fl S p) (stats p)"
    unfolding unranked_entries_in_def S by auto
  then obtain st where p: "p \<in> set (participants r)" "isActive p \<noteq> Some False"
    "stats p = Some st" "e' = leaderboard_entry_in fl S p st"
    by (cases "stats p") auto
  have "totalScore e' = js_round (composite_score_in fl S st)"
    by (simp add: p(4) leaderboard_entry_in_def)
  with p e' show ?thesis
    unfolding composite_score_in_fl [OF assms(2,4)] js_round_def
    by (auto simp: leaderboard_entry_in_def)
qed

text \<open>
  The room with the weights 0.7 and 0.3: the participant with 45 easy problems is listed
  with \<open>Math.round (31.499999999999996) = 31\<close>, the one with 5 easy problems with
  \<open>Math.round (3.5) = 4\<close>, since the product \<open>5 \<times> 0.7\<close> lies halfway between two doubles
  and is rounded to 3.5.
\<close>

lemma dot7_room_leaderboard:
  "map (\<lambda>e. (e_auth0Id e, totalScore e, rank e))
       (fst (projr (get_leaderboard_in fl (Some dot7_room)))) = [(''a'', 31, 1), (''b'', 4, 2)]"
proof -
  have a: "fl (45 * double_07) = 8866461766385663 / 281474976710656"
    "fl (8866461766385663 / 281474976710656) = 8866461766385663 / 281474976710656"
    "js_round (8866461766385663 / 281474976710656) = 31"
    "fl (5 * double_07) = 7 / 2" "fl (7 / 2) = 7 / 2" "js_round (7 / 2) = 4"
    unfolding double_07_def by code_simp+
  have w: "0 < double_07" by (simp add: double_07_def)
  show ?thesis
    by (simp add: get_leaderboard_in_def unranked_entries_in_def leaderboard_entry_in_def
        composite_score_in_def calculateLeetCodeScore_in_def dot7_room_def mk_participant_def
        js_sort_def enumerate_eq_zip with_rank_def entry.defs ranked_entry.defs
        by_score_desc_def a w)
qed

text \<open>
  C1 (amended) at that room, for the participant with 5 easy problems and no commit
  snapshot: the entry has \<open>totalScore\<close> 4.
\<close>

theorem C1_composite_score_witness:
  "\<exists>p st. p \<in> set (participants dot7_room) \<and> isActive p \<noteq> Some False
       \<and> stats p = Some st \<and> ''b'' = auth0Id p
       \<and> (4 :: int)
           = \<lfloor>fl (fl ((case leetcode st of None \<Rightarrow> 0
                         | Some s \<Rightarrow> fl (fl (fl (num_or0 (easy s) * 1)
                                              + fl (num_or0 (medium s) * 2))
                                         + fl (num_or0 (hard s) * 3)))
                        * double_07)
                    + fl ((case github st of None \<Rightarrow> 0
                           | Some g \<Rightarrow> fl (fl ((if totalCommits g = Some 1030 then 565
                                                  else num_or0 (totalCommits g))
                                                 + fl (num_or0 (weeklyCommits g) * 2))
                                             + fl (num_or0 (monthlyCommits g) * (1 / 2))))
                          * double_03))
              + 1 / 2\<rfloor>"
proof -
  define lb where "lb = fst (projr (get_leaderboard_in fl (Some dot7_room)))"
  define S where "S = \<lparr>weightLeetCode = double_07, weightGitHub = double_03\<rparr>"
  have run: "get_leaderboard_in fl (Some dot7_room) = Inr (lb, S)"
    unfolding lb_def S_def
    by (simp add: get_leaderboard_in_def unranked_entries_in_def dot7_room_def
          mk_participant_def)
  have w: "0 \<le> weightLeetCode S" "weightLeetCode S \<le> 1"
    "0 \<le> weightGitHub S" "weightGitHub S \<le> 1"
    by (simp_all add: S_def double_07_def double_03_def)
  have range: "list_all (\<lambda>p. case stats p of None \<Rightarrow> True | Some st \<Rightarrow> counts_in_range st)
                 (participants dot7_room)"
    by (simp add: dot7_room_def mk_participant_def counts_in_range_def)
  from dot7_room_leaderboard
  have "map (\<lambda>e. (e_auth0Id e, totalScore e)) lb = [(''a'', 31), (''b'', 4)]"
    unfolding lb_def by (simp add: map_eq_Cons_conv) auto
  then obtain e' e where lb: "lb = [e', e]" and e: "e_auth0Id e = ''b''" "totalScore e = 4"
    by (auto simp: map_eq_Cons_conv)
  from lb have mem: "e \<in> set lb" by simp
  from C1_composite_score [OF run w range mem] e show ?thesis
    by (simp add: S_def)
qed

text \<open>
  In exact arithmetic the second product is \<open>3.4999999999999997...\<close>, which rounds to 3:
  the rounding of the product to a double decides the listed score.
\<close>

lemma exact_arithmetic_differs:
  "map totalScore (fst (projr (get_leaderboard (Some dot7_room)))) = [31, 3]"
proof -
  have a: "js_round (45 * double_07) = 31" "js_round (5 * double_07) = 3"
    unfolding double_07_def by code_simp+
  have w: "0 < double_07" by (simp add: double_07_def)
  show ?thesis 
    by (simp add: get_leaderboard_def unranked_entries_def leaderboard_entry_def
        composite_score_def calculateLeetCodeScore_def dot7_room_def mk_participant_def
        js_sort_def enumerate_eq_zip with_rank_def entry.defs ranked_entry.defs
        by_score_desc_def a w)
qed

section \<open>Properties of the LeetCode service\<close>

declare show_nat.simps [simp del]

lemma js_or_undefined: "js_or JUndefined b = b"
  by (simp add: js_or_def)

lemma js_or_fixed: "truthy v \<or> v = d \<Longrightarrow> js_or v d = v"
  by (auto simp: js_or_def)

lemma js_or_range: "truthy (js_or a d) \<or> js_or a d = d"
  by (simp add: js_or_def)

lemma js_or_range2: "truthy (js_or a (js_or b d)) \<or> js_or a (js_or b d) = d"
  by (simp add: js_or_def)

lemma js_or_range3:
  "truthy (js_or a (js_or b (js_or c d))) \<or> js_or a (js_or b (js_or c d)) = d"
  by (simp add: js_or_def)

lemma js_opt_get_eq: "js_opt_get v k = js_get v k"
  by (cases v) (simp_all add: js_opt_get_def)

subsection \<open>Normalization\<close>

lemma canonical_normalize: "canonical (normalize d)"
  by (simp add: normalize_def canonical_fields_def field_default_def
        js_or_range js_or_range2 js_or_range3)

lemma normalize_canonical:
  assumes c: "canonical r"
  shows "normalize r = r"
proof (cases r)
  case (JObj kvs)
  with c obtain v1 v2 v3 v4 v5 v6 v7 v8 v9 v10 v11 v12 where
    kvs: "kvs = [(''totalSolved'', v1), (''totalQuestions'', v2), (''easySolved'', v3),
                 (''totalEasy'', v4), (''mediumSolved'', v5), (''totalMedium'', v6),
                 (''hardSolved'', v7), (''totalHard'', v8), (''acceptanceRate'', v9),
                 (''ranking'', v10), (''contributionPoints'', v11), (''reputation'', v12)]"
    by (auto simp: canonical_fields_def map_eq_Cons_conv)
  from c have v:
    "truthy v1 \<or> v1 = JNum 0" "truthy v2 \<or> v2 = JNum 0" "truthy v3 \<or> v3 = JNum 0"
    "truthy v4 \<or> v4 = JNum 0" "truthy v5 \<or> v5 = JNum 0" "truthy v6 \<or> v6 = JNum 0"
    "truthy v7 \<or> v7 = JNum 0" "truthy v8 \<or> v8 = JNum 0" "truthy v9 \<or> v9 = JNum 0"
    "truthy v10 \<or> v10 = JNull" "truthy v11 \<or> v11 = JNum 0" "truthy v12 \<or> v12 = JNum 0"
    unfolding JObj kvs by (simp_all add: field_default_def)
  show ?thesis unfolding JObj kvs
    by (simp add: normalize_def js_or_undefined js_or_fixed [OF v(1)] js_or_fixed [OF v(2)]
          js_or_fixed [OF v(3)] js_or_fixed [OF v(4)] js_or_fixed [OF v(5)]
          js_or_fixed [OF v(6)] js_or_fixed [OF v(7)] js_or_fixed [OF v(8)]
          js_or_fixed [OF v(9)] js_or_fixed [OF v(10)] js_or_fixed [OF v(11)]
          js_or_fixed [OF v(12)])
qed (use c in simp_all)

lemma normalize_idempotent: "normalize (normalize d) = normalize d"
  by (rule normalize_canonical) (rule canonical_normalize)

text \<open>
  C9: every record the normalization produces is in canonical form, and the
  normalization of a record in canonical form is that record.
\<close>

theorem C9_normalization_idempotent:
  "canonical (normalize d) \<and> (canonical r \<longrightarrow> normalize r = r)"
  using canonical_normalize normalize_canonical by blast

text \<open>C9 at a record in canonical form.\<close>

theorem C9_normalization_idempotent_witness:
  "canonical
     (JObj [(''totalSolved'', JNum 17), (''totalQuestions'', JNum 3000), (''easySolved'', JNum 10),
            (''totalEasy'', JNum 800), (''mediumSolved'', JNum 5), (''totalMedium'', JNum 1600),
            (''hardSolved'', JNum 2), (''totalHard'', JNum 600), (''acceptanceRate'', JNum 0),
            (''ranking'', JNull), (''contributionPoints'', JNum 0), (''reputation'', JNum 0)])
   \<and> normalize
     (JObj [(''totalSolved'', JNum 17), (''totalQuestions'', JNum 3000), (''easySolved'', JNum 10),
            (''totalEasy'', JNum 800), (''mediumSolved'', JNum 5), (''totalMedium'', JNum 1600),
            (''hardSolved'', JNum 2), (''totalHard'', JNum 600), (''acceptanceRate'', JNum 0),
            (''ranking'', JNull), (''contributionPoints'', JNum 0), (''reputation'', JNum 0)])
     = JObj [(''totalSolved'', JNum 17), (''totalQuestions'', JNum 3000), (''easySolved'', JNum 10),
            (''totalEasy'', JNum 800), (''mediumSolved'', JNum 5), (''totalMedium'', JNum 1600),
            (''hardSolved'', JNum 2), (''totalHard'', JNum 600), (''acceptanceRate'', JNum 0),
            (''ranking'', JNull), (''contributionPoints'', JNum 0), (''reputation'', JNum 0)]"
  (is "canonical ?r \<and> _")
proof -
  have h: "canonical ?r"
    by (simp add: canonical_fields_def field_default_def)
  from C9_normalization_idempotent [of ?r ?r] have "canonical ?r \<longrightarrow> normalize ?r = ?r" ..
  with h show ?thesis by blast
qed

subsection \<open>All mirrors failing\<close>

text \<open>
  The loop body fails with a reason exactly when the answer of the mirror is a failure with
  that reason.
\<close>

lemma js_or_if: "js_or a b = (if truthy a then a else b)"
  by (simp add: js_or_def)

lemma try_endpoint_fails_iff:
  "try_endpoint w b u = Inl m
     \<longleftrightarrow> fails_with (numberToString w) (fetch w (b @ ''/'' @ u)) m"
proof (cases "fetch w (b @ ''/'' @ u)")
  case (NetworkFailure x)
  then show ?thesis by (auto simp: try_endpoint_def)
next
  case (HttpResponse status body)
  then show ?thesis
    by (cases body) (auto simp: try_endpoint_def js_or_if)
qed

lemma try_endpoints_all_fail:
  assumes "\<forall>b \<in> set bs. try_endpoint w b u = Inl (reason b)"
  shows "try_endpoints w u bs errs =
           JObj [(''error'', JBool True),
                 (''message'', JStr (''All LeetCode APIs failed. Errors: ''
                    @ join ''; '' (errs @ map (\<lambda>b. b @ '': '' @ reason b) bs))),
                 (''totalSolved'', JNum 0),
                 (''easySolved'', JNum 0),
                 (''mediumSolved'', JNum 0),
                 (''hardSolved'', JNum 0)]"
  using assms
proof (induction bs arbitrary: errs)
  case Nil
  show ?case by simp
next
  case (Cons b bs)
  from Cons.prems have m: "try_endpoint w b u = Inl (reason b)" by simp
  from Cons.prems have "\<forall>b \<in> set bs. try_endpoint w b u = Inl (reason b)" by simp
  from Cons.IH [OF this, of "errs @ [b @ '': '' @ reason b]"] m show ?case by simp
qed

text \<open>
  C6: for every username \<open>u\<close>, if the answer of each of the three mirrors to the request
  for \<open>u\<close> is a failure, with reason \<open>reason b\<close> for the mirror \<open>b\<close>, then \<open>getUserStats\<close>
  returns the record with \<open>error = true\<close>, the four counts 0, and the message that
  joins, in the order of the mirrors, each mirror's address and the reason of its failure.
  The function is total: it has no other outcome than a returned value.
\<close>

theorem C6_all_endpoints_failed:
  assumes "\<forall>b \<in> set LEETCODE_API_ENDPOINTS.
             fails_with (numberToString w) (fetch w (b @ ''/'' @ u)) (reason b)"
  shows "getUserStats w u =
           JObj [(''error'', JBool True),
                 (''message'', JStr (''All LeetCode APIs failed. Errors: ''
                    @ join ''; '' (map (\<lambda>b. b @ '': '' @ reason b) LEETCODE_API_ENDPOINTS))),
                 (''totalSolved'', JNum 0),
                 (''easySolved'', JNum 0),
                 (''mediumSolved'', JNum 0),
                 (''hardSolved'', JNum 0)]"
proof -
  from assms have "\<forall>b \<in> set LEETCODE_API_ENDPOINTS. try_endpoint w b u = Inl (reason b)"
    by (simp add: try_endpoint_fails_iff)
  from try_endpoints_all_fail [OF this, of "[]"] show ?thesis
    by (simp add: getUserStats_def)
qed

text \<open>
  If one mirror answers with a record, no error record is returned: the result is the
  normalization of the first such answer (lemma \<open>try_endpoints_cases\<close> below).
\<close>

text \<open>
  C6 in an environment where the first mirror cannot be reached, the second answers with
  status 429 and the third reports that the user does not exist.
\<close>

theorem C6_all_endpoints_failed_witness:
  "getUserStats world_failing ''nobody'' =
     JObj [(''error'', JBool True),
           (''message'', JStr (''All LeetCode APIs failed. Errors: ''
              @ ''https://leetcode-stats-api.herokuapp.com: fetch failed; ''
              @ ''https://alfa-leetcode-api.onrender.com: API responded with status: 429; ''
              @ ''https://leetcode-api-faisalshohag.vercel.app: user does not exist'')),
           (''totalSolved'', JNum 0),
           (''easySolved'', JNum 0),
           (''mediumSolved'', JNum 0),
           (''hardSolved'', JNum 0)]"
proof -
  let ?reason = "\<lambda>b. if b = ''https://leetcode-stats-api.herokuapp.com'' then ''fetch failed''
                      else if b = ''https://alfa-leetcode-api.onrender.com''
                      then ''API responded with status: 429''
                      else ''user does not exist''"
  have h: "\<forall>b \<in> set LEETCODE_API_ENDPOINTS.
             fails_with (numberToString world_failing)
               (fetch world_failing (b @ ''/'' @ ''nobody'')) (?reason b)"
    by (simp add: LEETCODE_API_ENDPOINTS_def world_failing_def error_message_def
          show_nat.simps)
  show ?thesis
    unfolding C6_all_endpoints_failed [OF h]
    by (simp add: LEETCODE_API_ENDPOINTS_def)
qed

text \<open>An object that cannot be converted to text gives the reason of the \<open>TypeError\<close>.\<close>

lemma unprintable_error_reason:
  "fails_with num
     (HttpResponse 200 (Inr (JObj [(''errors'', JObj [(''toString'', JNum 1)])])))
     ''Cannot convert object to primitive value''"
  by (simp add: error_message_def)


lemma getUserStats_world_up:
  "getUserStats world_up u = normalize (JObj [(''status'', JStr ''success''), (''totalSolved'', JNum 17),
                             (''easySolved'', JNum 10), (''mediumSolved'', JNum 5),
                             (''hardSolved'', JNum 2)])"
  by (simp add: getUserStats_def LEETCODE_API_ENDPOINTS_def try_endpoint_def world_up_def)

section \<open>Properties of the single-participant refresh (update-stats)\<close>

lemma find_update_first:
  "find P xs = Some p \<Longrightarrow> P p' \<Longrightarrow> find P (update_first P (\<lambda>q. p') xs) = Some p'"
  by (induction xs) (auto split: if_splits)

lemma update_leetcode_github [simp]:
  "github (cur_stats (update_leetcode w fs u s)) = github (cur_stats s)"
  by (simp add: update_leetcode_def Let_def)

lemma update_leetcode_calls:
  "filter github_call (calls (update_leetcode w fs u s)) = filter github_call (calls s)"
  by (simp add: update_leetcode_def Let_def)

lemma update_leetcode_errors:
  "set (errors s) \<subseteq> set (errors (update_leetcode w fs u s))"
  by (auto simp add: update_leetcode_def Let_def)

lemma update_leetcode_updates:
  "set (updates s) \<subseteq> set (updates (update_leetcode w fs u s))"
  by (auto simp add: update_leetcode_def Let_def)

lemma update_github_leetcode [simp]:
  "leetcode (cur_stats (update_github w now fs u s)) = leetcode (cur_stats s)"
  by (simp add: update_github_def Let_def)

lemma update_github_calls:
  "filter (\<lambda>c. \<not> github_call c) (calls (update_github w now fs u s))
     = filter (\<lambda>c. \<not> github_call c) (calls s)"
  by (simp add: update_github_def Let_def)

text \<open>
  A request that names a user, for an active room in which the user is an active
  participant, is answered with success when the room can be saved.
\<close>

lemma update_stats_saved:
  assumes "rq_auth0Id rq \<noteq> []" and "roomActive r" and "isParticipant r (rq_auth0Id rq)"
    and "find (\<lambda>q. auth0Id q = rq_auth0Id rq) (participants r) = Some p"
    and "save (r\<lparr>participants :=
                      update_first (\<lambda>q. auth0Id q = rq_auth0Id rq)
                        (\<lambda>q. update_participant w now rq p) (participants r),
                   lastActivity := now\<rparr>)"
  shows "update_stats w now save (Some r) rq =
     \<lparr>reply = Inr \<lparr>u_message = ''Stats updated successfully'',
                   u_updates = updates (refreshed w now rq p),
                   u_errors = (if errors (refreshed w now rq p) = [] then None
                               else Some (errors (refreshed w now rq p))),
                   u_participant = update_participant w now rq p\<rparr>,
      saved = Some (r\<lparr>participants :=
                         update_first (\<lambda>q. auth0Id q = rq_auth0Id rq)
                           (\<lambda>q. update_participant w now rq p) (participants r),
                      lastActivity := now\<rparr>),
      calls_made = calls (refreshed w now rq p)\<rparr>"
  using assms by (simp add: update_stats_def Let_def)

lemma update_stats_run:
  assumes "rq_auth0Id rq \<noteq> []" and "roomActive r" and "isParticipant r (rq_auth0Id rq)"
    and "find (\<lambda>q. auth0Id q = rq_auth0Id rq) (participants r) = Some p"
    and "\<forall>x. save x"
  shows "update_stats w now save (Some r) rq =
     \<lparr>reply = Inr \<lparr>u_message = ''Stats updated successfully'',
                   u_updates = updates (refreshed w now rq p),
                   u_errors = (if errors (refreshed w now rq p) = [] then None
                               else Some (errors (refreshed w now rq p))),
                   u_participant = update_participant w now rq p\<rparr>,
      saved = Some (r\<lparr>participants :=
                         update_first (\<lambda>q. auth0Id q = rq_auth0Id rq)
                           (\<lambda>q. update_participant w now rq p) (participants r),
                      lastActivity := now\<rparr>),
      calls_made = calls (refreshed w now rq p)\<rparr>"
  using assms by (simp add: update_stats_def Let_def)

text \<open>
  Whether such a request is answered with success depends on the save alone, not on what
  the providers answered or on the warnings collected.
\<close>

lemma update_stats_success_flag:
  assumes "rq_auth0Id rq \<noteq> []" and "roomActive r" and "isParticipant r (rq_auth0Id rq)"
    and "find (\<lambda>q. auth0Id q = rq_auth0Id rq) (participants r) = Some p"
  shows "isl (reply (update_stats w now save (Some r) rq))
           \<longleftrightarrow> \<not> save (r\<lparr>participants :=
                              update_first (\<lambda>q. auth0Id q = rq_auth0Id rq)
                                (\<lambda>q. update_participant w now rq p) (participants r),
                            lastActivity := now\<rparr>)"
  using assms by (simp add: update_stats_def Let_def)

lemma updated_participant_found:
  assumes "find (\<lambda>q. auth0Id q = uid) (participants r) = Some p"
  shows "find (\<lambda>q. auth0Id q = uid)
           (update_first (\<lambda>q. auth0Id q = uid) (\<lambda>q. update_participant w now rq p)
              (participants r))
         = Some (update_participant w now rq p)"
proof -
  from assms have "auth0Id p = uid" by (auto simp: find_Some_iff)
  then have "auth0Id (update_participant w now rq p) = uid"
    by (simp add: update_participant_def)
  with assms show ?thesis by (rule find_update_first)
qed

subsection \<open>Client-supplied statistics\<close>

text \<open>
  C10 (as the claim states it, refuted): Ann has a commit username, and the request
  carries the commit record \<open>{totalCommits: -5, bogus: 'x'}\<close> in \<open>frontendStats\<close>. The
  participant is a document typed by the schema, which declares no field \<open>bogus\<close>: the
  snapshot that is saved is \<open>{totalCommits: -5}\<close>, not the client's object.
\<close>

theorem C10_verbatim_counterexample:
  "github_user (effective_profiles client_request js_ann) = ''ann''
   \<and> js_get (rq_frontendStats client_request) ''github''
       = JObj [(''totalCommits'', JNum (- 5)), (''bogus'', JStr ''x'')]
   \<and> map_option (map (\<lambda>p. map_option github (stats p)) \<circ> participants)
       (saved (update_stats world_down 7 validated_save (Some (js_room_of ''A''))
                 client_request))
     = Some [Some (JObj [(''totalCommits'', JNum (- 5))])]"
  by (simp add: update_stats_def isParticipant_def js_room_of_def client_request_def
        client_stats_def js_ann_def effective_profiles_def update_participant_def refreshed_def
        update_github_def update_leetcode_def js_opt_get_def stats_or_initial_def Let_def
        world_down_def keep_declared_def schema_fields_def validated_save_def)

text \<open>
  C10 (amended): for a request that is served (it names a user who is an active
  participant of an active room, and the save of the updated room succeeds), with \<open>p\<close>
  the participant entry found: if, after the request's profiles are merged, the participant has a
  non-empty GitHub username and the request carries a truthy \<open>frontendStats.github\<close>
  (any object is truthy), then the handler assigns that very value to the GitHub
  snapshot, so that the saved snapshot is what the typed document holds of it
  (\<open>doc_set\<close>), this is what is reported in \<open>updates\<close>, and no call to the GitHub service
  was made; and the same holds for LeetCode. The handler itself checks nothing about the
  value: the statement holds for every value.
\<close>

theorem C10_frontend_stats_stored:
  assumes "rq_auth0Id rq \<noteq> []" and "roomActive r" and "isParticipant r (rq_auth0Id rq)"
    and "find (\<lambda>q. auth0Id q = rq_auth0Id rq) (participants r) = Some p"
    and "save (r\<lparr>participants :=
                      update_first (\<lambda>q. auth0Id q = rq_auth0Id rq)
                        (\<lambda>q. update_participant w now rq p) (participants r),
                   lastActivity := now\<rparr>)"
  shows "\<exists>rep r' p'.
           reply (update_stats w now save (Some r) rq) = Inr rep
         \<and> saved (update_stats w now save (Some r) rq) = Some r'
         \<and> find (\<lambda>q. auth0Id q = rq_auth0Id rq) (participants r') = Some p'
         \<and> u_participant rep = p'
         \<and> (github_user (effective_profiles rq p) \<noteq> []
              \<and> truthy (js_opt_get (rq_frontendStats rq) ''github'')
            \<longrightarrow> map_option github (stats p')
                  = Some (doc_set w ''github'' (js_get (rq_frontendStats rq) ''github''))
                \<and> (''github'', doc_set w ''github'' (js_get (rq_frontendStats rq) ''github''))
                    \<in> set (u_updates rep)
                \<and> filter github_call (calls_made (update_stats w now save (Some r) rq)) = [])
         \<and> (leetcode_user (effective_profiles rq p) \<noteq> []
              \<and> truthy (js_opt_get (rq_frontendStats rq) ''leetcode'')
            \<longrightarrow> map_option leetcode (stats p')
                  = Some (doc_set w ''leetcode'' (js_get (rq_frontendStats rq) ''leetcode''))
                \<and> (''leetcode'', doc_set w ''leetcode'' (js_get (rq_frontendStats rq) ''leetcode''))
                    \<in> set (u_updates rep)
                \<and> filter (\<lambda>c. \<not> github_call c)
                      (calls_made (update_stats w now save (Some r) rq)) = [])"
proof -
  let ?fs = "rq_frontendStats rq"
  let ?p' = "update_participant w now rq p"
  let ?s1 = "update_github w now ?fs (github_user (effective_profiles rq p))
               \<lparr>cur_stats = stats_or_initial p, updates = [], errors = [], calls = []\<rparr>"
  note run = update_stats_saved
               [where save = save and w = w and now = now and rq = rq and r = r and p = p,
                OF assms]
  note found = updated_participant_found [OF assms(4), of w now rq]
  have gh: "map_option github (stats ?p') = Some (doc_set w ''github'' (js_get ?fs ''github''))
            \<and> (''github'', doc_set w ''github'' (js_get ?fs ''github''))
                \<in> set (updates (refreshed w now rq p))
            \<and> filter github_call (calls (refreshed w now rq p)) = []"
    if "github_user (effective_profiles rq p) \<noteq> []" "truthy (js_opt_get ?fs ''github'')"
  proof -
    have s1: "github (cur_stats ?s1) = doc_set w ''github'' (js_get ?fs ''github'')"
      "(''github'', doc_set w ''github'' (js_get ?fs ''github'')) \<in> set (updates ?s1)"
      "calls ?s1 = []"
      using that by (simp_all add: update_github_def js_opt_get_eq Let_def)
    show ?thesis
      using s1 update_leetcode_updates [of ?s1 w ?fs "leetcode_user (effective_profiles rq p)"]
      by (auto simp: update_participant_def refreshed_def Let_def update_leetcode_calls)
  qed
  have lc: "map_option leetcode (stats ?p')
              = Some (doc_set w ''leetcode'' (js_get ?fs ''leetcode''))
            \<and> (''leetcode'', doc_set w ''leetcode'' (js_get ?fs ''leetcode''))
                \<in> set (updates (refreshed w now rq p))
            \<and> filter (\<lambda>c. \<not> github_call c) (calls (refreshed w now rq p)) = []"
    if "leetcode_user (effective_profiles rq p) \<noteq> []" "truthy (js_opt_get ?fs ''leetcode'')"
  proof -
    have "filter (\<lambda>c. \<not> github_call c) (calls ?s1) = []"
      by (simp add: update_github_calls)
    then show ?thesis
      using that
      by (simp add: update_participant_def refreshed_def Let_def update_leetcode_def
            js_opt_get_eq)
  qed
  show ?thesis
    unfolding run using found gh lc by simp
qed

text \<open>
  C10 (amended) at a request whose \<open>frontendStats\<close> holds a commit record with a negative
  count and a field the schema does not declare, and a problem-solving record whose total
  does not fit its counts: the document keeps the declared fields as they are, the
  negative count and the total included, the room is saved, and no provider is called.
\<close>

theorem C10_frontend_stats_stored_witness:
  "\<exists>rep r' p'.
      reply (update_stats world_down 7 validated_save (Some (js_room_of ''A'')) client_request)
        = Inr rep
    \<and> saved (update_stats world_down 7 validated_save (Some (js_room_of ''A'')) client_request)
        = Some r'
    \<and> find (\<lambda>q. auth0Id q = ''u1'') (participants r') = Some p'
    \<and> map_option github (stats p') = Some (JObj [(''totalCommits'', JNum (- 5))])
    \<and> map_option leetcode (stats p')
        = Some (JObj [(''total'', JNum 1000000), (''easy'', JNum 1), (''medium'', JNum 2),
                      (''hard'', JNum 3)])
    \<and> calls_made (update_stats world_down 7 validated_save (Some (js_room_of ''A'')) client_request)
        = []"
proof -
  have h: "rq_auth0Id client_request \<noteq> []"
    "roomActive (js_room_of ''A'')"
    "isParticipant (js_room_of ''A'') (rq_auth0Id client_request)"
    "find (\<lambda>q. auth0Id q = rq_auth0Id client_request) (participants (js_room_of ''A''))
       = Some js_ann"
    by (simp_all add: client_request_def js_room_of_def isParticipant_def js_ann_def)
  have s: "validated_save
             ((js_room_of ''A'')
                \<lparr>participants :=
                   update_first (\<lambda>q. auth0Id q = rq_auth0Id client_request)
                     (\<lambda>q. update_participant world_down 7 client_request js_ann)
                     (participants (js_room_of ''A'')),
                 lastActivity := 7\<rparr>)"
    by (simp add: validated_save_def js_room_of_def client_request_def client_stats_def
          js_ann_def effective_profiles_def update_participant_def refreshed_def
          update_github_def update_leetcode_def js_opt_get_def stats_or_initial_def Let_def
          world_down_def keep_declared_def schema_fields_def)
  have g: "github_user (effective_profiles client_request js_ann) \<noteq> []"
    "truthy (js_opt_get (rq_frontendStats client_request) ''github'')"
    "leetcode_user (effective_profiles client_request js_ann) \<noteq> []"
    "truthy (js_opt_get (rq_frontendStats client_request) ''leetcode'')"
    by (simp_all add: effective_profiles_def client_request_def js_ann_def client_stats_def
          js_opt_get_def)
  have v: "doc_set world_down ''github'' (js_get (rq_frontendStats client_request) ''github'')
             = JObj [(''totalCommits'', JNum (- 5))]"
    "doc_set world_down ''leetcode'' (js_get (rq_frontendStats client_request) ''leetcode'')
             = JObj [(''total'', JNum 1000000), (''easy'', JNum 1), (''medium'', JNum 2),
                     (''hard'', JNum 3)]"
    "rq_auth0Id client_request = ''u1''"
    by (simp_all add: client_request_def client_stats_def world_down_def keep_declared_def
          schema_fields_def)
  let ?out = "update_stats world_down 7 validated_save (Some (js_room_of ''A'')) client_request"
  from C10_frontend_stats_stored
         [where save = validated_save and w = world_down and now = 7
            and rq = client_request and r = "js_room_of ''A''" and p = js_ann, OF h s]
  obtain rep r' p' where
    a: "reply ?out = Inr rep" "saved ?out = Some r'"
       "find (\<lambda>q. auth0Id q = rq_auth0Id client_request) (participants r') = Some p'"
    and b: "map_option github (stats p')
              = Some (doc_set world_down ''github''
                        (js_get (rq_frontendStats client_request) ''github''))"
       "filter github_call (calls_made ?out) = []"
       "map_option leetcode (stats p')
              = Some (doc_set world_down ''leetcode''
                        (js_get (rq_frontendStats client_request) ''leetcode''))"
       "filter (\<lambda>c. \<not> github_call c) (calls_made ?out) = []"
    using g by blast
  from b(2,4) have "calls_made ?out = []"
    by (metis filter_empty_conv list.set_intros(1) neq_Nil_conv)
  with a b(1,3) show ?thesis unfolding v by blast
qed

text \<open>
  A client value that is not an object is not taken by the document: the save rejects, the
  request is answered with status 500 and nothing is stored.
\<close>

lemma client_string_refused:
  "reply (update_stats world_down 7 validated_save (Some (js_room_of ''A'')) string_request)
     = Inl ServerError500
   \<and> saved (update_stats world_down 7 validated_save (Some (js_room_of ''A'')) string_request)
     = None"
  by (simp add: update_stats_def isParticipant_def js_room_of_def string_request_def
        js_ann_def effective_profiles_def update_participant_def refreshed_def
        update_github_def update_leetcode_def js_opt_get_def stats_or_initial_def Let_def
        world_down_def keep_declared_def schema_fields_def validated_save_def
        validateUsername_def)

subsection \<open>A username that fails the existence probe\<close>

text \<open>
  C8: for a request that is served, with \<open>p\<close> the participant entry found: if the
  participant's GitHub username \<open>u\<close> (after the request's profiles are merged) is not
  empty, the request carries no truthy \<open>frontendStats.github\<close>, and the existence probe
  answers false for \<open>u\<close>, then the only call made to the GitHub service is the probe, the
  saved GitHub snapshot is the fixed fallback 50, 5, 20, the warning naming \<open>u\<close> is among
  the returned \<open>errors\<close>, and the answer is a success.
\<close>

theorem C8_invalid_username_fallback:
  assumes "rq_auth0Id rq \<noteq> []" and "roomActive r" and "isParticipant r (rq_auth0Id rq)"
    and "find (\<lambda>q. auth0Id q = rq_auth0Id rq) (participants r) = Some p"
    and "\<forall>x. save x"
    and "github_user (effective_profiles rq p) = u" and "u \<noteq> []"
    and "\<not> truthy (js_opt_get (rq_frontendStats rq) ''github'')"
    and "\<not> gh_exists w u"
  shows "\<exists>rep r' p' es.
           reply (update_stats w now save (Some r) rq) = Inr rep
         \<and> saved (update_stats w now save (Some r) rq) = Some r'
         \<and> find (\<lambda>q. auth0Id q = rq_auth0Id rq) (participants r') = Some p'
         \<and> map_option github (stats p')
             = Some (JObj [(''totalCommits'', JNum 50), (''weeklyCommits'', JNum 5),
                           (''monthlyCommits'', JNum 20)])
         \<and> filter github_call (calls_made (update_stats w now save (Some r) rq))
             = [ValidateUsername u]
         \<and> u_errors rep = Some es
         \<and> (''GitHub username '' @ [CHR 0x22] @ u @ [CHR 0x22]
               @ '' not found - using estimated stats'') \<in> set es"
proof -
  let ?fs = "rq_frontendStats rq"
  let ?p' = "update_participant w now rq p"
  let ?s1 = "update_github w now ?fs u
               \<lparr>cur_stats = stats_or_initial p, updates = [], errors = [], calls = []\<rparr>"
  let ?warning = "''GitHub username '' @ [CHR 0x22] @ u @ [CHR 0x22]
                    @ '' not found - using estimated stats''"
  note run = update_stats_run [OF assms(1-5), of w now]
  note found = updated_participant_found [OF assms(4), of w now rq]
  have s1: "github (cur_stats ?s1)
              = JObj [(''totalCommits'', JNum 50), (''weeklyCommits'', JNum 5),
                      (''monthlyCommits'', JNum 20)]"
    "errors ?s1 = [?warning]" "calls ?s1 = [ValidateUsername u]"
    using assms(7-9) by (simp_all add: update_github_def validateUsername_def Let_def)
  have r: "refreshed w now rq p = update_leetcode w ?fs (leetcode_user (effective_profiles rq p)) ?s1"
    using assms(6) by (simp add: refreshed_def Let_def)
  have snapshot: "map_option github (stats ?p')
                    = Some (JObj [(''totalCommits'', JNum 50), (''weeklyCommits'', JNum 5),
                                  (''monthlyCommits'', JNum 20)])"
    by (simp add: update_participant_def r s1(1))
  have made: "filter github_call (calls (refreshed w now rq p)) = [ValidateUsername u]"
    by (simp add: r update_leetcode_calls s1(3))
  have warned: "?warning \<in> set (errors (refreshed w now rq p))"
    using update_leetcode_errors [of ?s1 w ?fs "leetcode_user (effective_profiles rq p)"]
    by (auto simp: r s1(2))
  then have "errors (refreshed w now rq p) \<noteq> []" by auto
  with warned snapshot made found show ?thesis
    unfolding run by simp
qed

text \<open>C8 in an environment where no username exists.\<close>

theorem C8_invalid_username_fallback_witness:
  "\<exists>rep r' p' es.
      reply (update_stats world_down 7 (\<lambda>r. True) (Some (js_room_of ''A'')) plain_request)
        = Inr rep
    \<and> saved (update_stats world_down 7 (\<lambda>r. True) (Some (js_room_of ''A'')) plain_request)
        = Some r'
    \<and> find (\<lambda>q. auth0Id q = ''u1'') (participants r') = Some p'
    \<and> map_option github (stats p')
        = Some (JObj [(''totalCommits'', JNum 50), (''weeklyCommits'', JNum 5),
                      (''monthlyCommits'', JNum 20)])
    \<and> filter github_call
        (calls_made (update_stats world_down 7 (\<lambda>r. True) (Some (js_room_of ''A'')) plain_request))
        = [ValidateUsername ''ann'']
    \<and> u_errors rep = Some es
    \<and> (''GitHub username '' @ [CHR 0x22] @ ''ann'' @ [CHR 0x22]
          @ '' not found - using estimated stats'') \<in> set es"
proof -
  have h: "rq_auth0Id plain_request \<noteq> []"
    "roomActive (js_room_of ''A'')"
    "isParticipant (js_room_of ''A'') (rq_auth0Id plain_request)"
    "find (\<lambda>q. auth0Id q = rq_auth0Id plain_request) (participants (js_room_of ''A''))
       = Some js_ann"
    "\<forall>x :: js_room. (\<lambda>r. True) x"
    "github_user (effective_profiles plain_request js_ann) = ''ann''"
    "''ann'' \<noteq> []"
    "\<not> truthy (js_opt_get (rq_frontendStats plain_request) ''github'')"
    "\<not> gh_exists world_down ''ann''"
    by (simp_all add: plain_request_def js_room_of_def isParticipant_def js_ann_def
          effective_profiles_def js_opt_get_def world_down_def)
  have uid: "rq_auth0Id plain_request = ''u1''" by (simp add: plain_request_def)
  from C8_invalid_username_fallback [OF h, of 7] show ?thesis
    unfolding uid .
qed

section \<open>Properties of the sync propagator (updateParticipantStatsInRooms)\<close>








section \<open>What a refresh writes into a snapshot\<close>

lemma js_or_defined: "b \<noteq> JUndefined \<Longrightarrow> js_or a b \<noteq> JUndefined"
  by (cases a) (simp_all add: js_or_def)



lemma normalize_fields_defined [simp]:
  "js_get (normalize d) ''easySolved'' \<noteq> JUndefined"
  "js_get (normalize d) ''mediumSolved'' \<noteq> JUndefined"
  "js_get (normalize d) ''hardSolved'' \<noteq> JUndefined"
  "js_get (normalize d) ''totalSolved'' \<noteq> JUndefined"
  by (simp_all add: normalize_def js_or_defined)

subsection \<open>The provider parts, one by one\<close>







lemma refresh_github_leetcode [simp]:
  "leetcode (cur_stats (refresh_github w u s)) = leetcode (cur_stats s)"
  by (simp add: refresh_github_def Let_def)

lemma refresh_github_errors [simp]: "errors (refresh_github w u s) = errors s"
  by (simp add: refresh_github_def Let_def)



subsection \<open>The refresh operations\<close>




subsection \<open>The commit snapshot of the whole-room refresh\<close>

text \<open>
  The whole-room refresh builds the commit snapshot from the properties \<open>totalCommits\<close>,
  \<open>weeklyCommits\<close> and \<open>monthlyCommits\<close> of what \<open>getUserCommitStats\<close> returned, which
  has the properties \<open>total\<close>, \<open>thisWeek\<close> and \<open>thisMonth\<close> (as the other callers read
  them). Whatever the provider answered, the record assigned holds three \<open>undefined\<close>
  fields.
\<close>

lemma getUserCommitStats_no_totalCommits:
  "js_get (getUserCommitStats w u) ''totalCommits'' = JUndefined"
  "js_get (getUserCommitStats w u) ''weeklyCommits'' = JUndefined"
  "js_get (getUserCommitStats w u) ''monthlyCommits'' = JUndefined"
  by (simp_all add: getUserCommitStats_def split: option.splits)

lemma refresh_github_undefined:
  "u \<noteq> [] \<Longrightarrow>
     github (cur_stats (refresh_github w u s))
       = doc_set w ''github''
           (JObj [(''totalCommits'', JUndefined), (''weeklyCommits'', JUndefined),
                  (''monthlyCommits'', JUndefined)])"
  by (simp add: refresh_github_def Let_def getUserCommitStats_no_totalCommits)

text \<open>
  An instance: Ann's stored commit snapshot is 120, 3, 10, and the provider answers with
  a total of 240, 4 commits this week and 12 this month. After the room refresh, which
  answers with success and no warning, her saved snapshot holds three \<open>undefined\<close>
  fields.
\<close>

lemma refresh_leaderboard_undefined_snapshot:
  "getUserCommitStats world_up ''ann''
     = JObj [(''total'', JNum 240), (''thisWeek'', JNum 4), (''thisMonth'', JNum 12),
             (''publicRepos'', JNum 30), (''accountAge'', JNum 24), (''recentActivity'', JNum 24)]
   \<and> map_option (map (\<lambda>p. map_option github (stats p)) \<circ> participants)
       (saved (refresh_leaderboard world_up 7 (\<lambda>r. True) (Some (js_room_of ''A'')) ''u1''))
     = Some [Some (JObj [(''totalCommits'', JUndefined), (''weeklyCommits'', JUndefined),
                         (''monthlyCommits'', JUndefined)])]
   \<and> map_sum id r_errors
       (reply (refresh_leaderboard world_up 7 (\<lambda>r. True) (Some (js_room_of ''A'')) ''u1''))
     = Inr None"
proof -
  have lc: "js_get (getUserStats world_up ''ann'') ''error'' = JUndefined"
    by (simp add: getUserStats_world_up normalize_def)
  have setter: "doc_set world_up = keep_declared"
    by (simp add: world_up_def)
  have "getUserCommitStats world_up ''ann''
     = JObj [(''total'', JNum 240), (''thisWeek'', JNum 4), (''thisMonth'', JNum 12),
             (''publicRepos'', JNum 30), (''accountAge'', JNum 24), (''recentActivity'', JNum 24)]"
    by (simp add: getUserCommitStats_def world_up_def js_number_def)
  moreover have "map_option (map (\<lambda>p. map_option github (stats p)) \<circ> participants)
       (saved (refresh_leaderboard world_up 7 (\<lambda>r. True) (Some (js_room_of ''A'')) ''u1''))
     = Some [Some (JObj [(''totalCommits'', JUndefined), (''weeklyCommits'', JUndefined),
                         (''monthlyCommits'', JUndefined)])]"
    by (simp add: refresh_leaderboard_def isCreator_def js_room_of_def Let_def
          refresh_participant_def refresh_progress_def refresh_leetcode_def
          refresh_github_undefined js_ann_def setter keep_declared_def schema_fields_def)
  moreover have "map_sum id r_errors
       (reply (refresh_leaderboard world_up 7 (\<lambda>r. True) (Some (js_room_of ''A'')) ''u1''))
     = Inr None"
    by (simp add: refresh_leaderboard_def isCreator_def js_room_of_def Let_def
          refresh_progress_def refresh_leetcode_def refresh_github_def js_ann_def lc)
  ultimately show ?thesis by blast
qed

end
